theory Spec2Isabelle
  imports Complex_Main
begin

text \<open>
  The sale lifecycle and checkout engine of the point-of-sale application: the sale
  services of the backend module (\<open>createSale\<close>, \<open>updateSale\<close>, \<open>completeSale\<close>,
  \<open>cancelSale\<close>) over the record store, and the handlers of the sales screen (cart
  editing, discount authorization, payment amounts, submit and cashier finalize) over
  the screen's state.
\<close>

section \<open>Data model (types.ts)\<close>

text \<open>
  A JavaScript \<open>number\<close> is modelled by the rational number it denotes. In the sale
  services every sum, product and quotient is the mathematical one; the handlers of the
  sales screen that multiply, divide and compare against a threshold use the rounded
  operations of the section on numbers. \<open>NaN\<close> is outside the model, and \<open>Infinity\<close>
  appears only as a result of \<open>parseInt\<close>. An optional field (\<open>f?: T\<close>) or a column
  that may be null is an \<open>option\<close>; record fields keep the source's names, with a
  suffix where two interfaces share a name or the name is taken.
\<close>

datatype UserRole = MANAGER | SALESPERSON | CASHIER

record User =
  id_user :: string
  name_user :: string
  username :: string
  role :: UserRole
  active_user :: bool

record Seller =
  id_seller :: string
  name_seller :: string
  active_seller :: bool

record Product =
  id_product :: string
  code :: string
  name :: string
  description :: string
  price :: rat
  stock :: rat
  category :: string
  unit_product :: string
  active :: bool

datatype SaleStatus = PENDING | COMPLETED | CANCELLED | BUDGET

record SaleItem =
  internalId :: "string option"
  productId :: string
  productCode :: "string option"
  productName :: string
  quantity :: rat
  unitPrice :: rat
  originalPrice :: rat
  total_item :: rat
  unit_item :: "string option"
  observation_item :: "string option"

record PaymentDetails =
  cash :: rat
  debit :: rat
  credit :: rat
  ticket :: rat
  pix :: rat
  transfer :: rat
  boleto :: rat
  cheque :: rat
  creditStore :: rat

record Sale =
  id_sale :: string
  sellerId :: "string option"
  sellerName :: "string option"
  salespersonId :: "string option"
  salespersonName :: "string option"
  cashierId :: "string option"
  cashierName :: "string option"
  items :: "SaleItem list"
  totalValue :: rat
  status :: SaleStatus
  createdAt :: string
  finishedAt :: "string option"
  clientName :: "string option"
  discount :: rat
  freight :: rat
  otherCosts :: rat
  payments :: "PaymentDetails option"
  installments :: "rat option"
  observation :: "string option"
  deliveryAddress :: "string option"
  purchaseOrder :: "string option"
  customerEmail :: "string option"
  cashierIdent :: "string option"

text \<open>
  The failures of the engine. The source signals each one as a thrown \<open>Error\<close> or an
  error toast; the constructor keeps what the message reports:
  \<^item> \<open>NotFound\<close>: "Venda nao encontrada";
  \<^item> \<open>AlreadyCompleted\<close>: "Venda ja concluida anteriormente.";
  \<^item> \<open>ProductNotFound n\<close>: "Produto nao encontrado: n" (the item's product name);
  \<^item> \<open>InsufficientStock n s\<close>: "Estoque insuficiente para 'n'. Disponivel: s";
  \<^item> \<open>StoreError\<close>: an error reported by the record store;
  \<^item> \<open>ValidationError\<close>: empty cart, no salesperson selected, no session;
  \<^item> \<open>NoPaymentSelected\<close>: "Selecione uma forma de pagamento antes de finalizar.";
  \<^item> \<open>PaymentMismatch d\<close>: "Pagamento divergente!" / "Valor incorreto!", with
    \<open>d = totalGeneral - paid\<close> (positive: short, negative: over);
  \<^item> \<open>ExceedsRemaining r\<close>: "O valor nao pode exceder o restante (Max: r)";
  \<^item> \<open>AuthorizationRequired p\<close>: "Desconto total (p%) excede 6%. Token obrigatorio."
\<close>

datatype error =
    NotFound
  | AlreadyCompleted
  | ProductNotFound string
  | InsufficientStock string rat
  | StoreError
  | ValidationError
  | NoPaymentSelected
  | PaymentMismatch rat
  | ExceedsRemaining rat
  | AuthorizationRequired rat

section \<open>The record store and the sale services\<close>

text \<open>
  The two tables the sale services touch, each a map from the row's id to the row as
  \<open>mapProduct\<close> / \<open>mapSale\<close> read it. A service takes the store and returns the store it
  leaves behind together with its result: a failed service still returns the store,
  because the writes made before the failure stay.
\<close>

record store =
  products :: "string \<rightharpoonup> Product"
  sales :: "string \<rightharpoonup> Sale"

text \<open>\<open>Partial<Sale>\<close>: the argument of \<open>createSale\<close> and \<open>updateSale\<close>; \<open>None\<close> is
  an absent (undefined) field.\<close>

record SalePartial =
  p_sellerId :: "string option"
  p_sellerName :: "string option"
  p_salespersonId :: "string option"
  p_salespersonName :: "string option"
  p_items :: "SaleItem list option"
  p_totalValue :: "rat option"
  p_status :: "SaleStatus option"
  p_clientName :: "string option"
  p_discount :: "rat option"
  p_freight :: "rat option"
  p_otherCosts :: "rat option"
  p_payments :: "PaymentDetails option"
  p_installments :: "rat option"
  p_observation :: "string option"
  p_deliveryAddress :: "string option"
  p_purchaseOrder :: "string option"
  p_customerEmail :: "string option"
  p_cashierIdent :: "string option"

definition noFields :: SalePartial where
  "noFields = \<lparr> p_sellerId = None, p_sellerName = None, p_salespersonId = None,
     p_salespersonName = None, p_items = None, p_totalValue = None, p_status = None,
     p_clientName = None, p_discount = None, p_freight = None, p_otherCosts = None,
     p_payments = None, p_installments = None, p_observation = None,
     p_deliveryAddress = None, p_purchaseOrder = None, p_customerEmail = None,
     p_cashierIdent = None \<rparr>"

text \<open>\<open>Number(x || 0)\<close> of \<open>mapSale\<close> on a column that may be null.\<close>

definition numberOr0 :: "rat option \<Rightarrow> rat" where
  "numberOr0 v = (case v of None \<Rightarrow> 0 | Some x \<Rightarrow> x)"

text \<open>
  \<open>createSale\<close>: the store assigns the id and the creation time (parameters \<open>newId\<close>
  and \<open>now\<close>); an id already in use is the store's error. A column that is not given is
  null in the row, which \<open>mapSale\<close> reads as 0 for the numbers.
\<close>

definition createSale :: "store \<Rightarrow> string \<Rightarrow> string \<Rightarrow> SalePartial \<Rightarrow> store \<times> (error + Sale)" where
  "createSale st newId now saleData =
     (case sales st newId of
        Some other \<Rightarrow> (st, Inl StoreError)
      | None \<Rightarrow>
          let row = \<lparr> id_sale = newId, sellerId = p_sellerId saleData,
                sellerName = p_sellerName saleData,
                salespersonId = p_salespersonId saleData,
                salespersonName = p_salespersonName saleData,
                cashierId = None, cashierName = None,
                items = (case p_items saleData of None \<Rightarrow> [] | Some its \<Rightarrow> its),
                totalValue = numberOr0 (p_totalValue saleData),
                status = (case p_status saleData of None \<Rightarrow> PENDING | Some s \<Rightarrow> s),
                createdAt = now, finishedAt = None,
                clientName = p_clientName saleData,
                discount = numberOr0 (p_discount saleData),
                freight = numberOr0 (p_freight saleData),
                otherCosts = numberOr0 (p_otherCosts saleData),
                payments = p_payments saleData,
                installments = p_installments saleData,
                observation = p_observation saleData,
                deliveryAddress = p_deliveryAddress saleData,
                purchaseOrder = p_purchaseOrder saleData,
                customerEmail = p_customerEmail saleData,
                cashierIdent = p_cashierIdent saleData \<rparr>
          in (st\<lparr>sales := (sales st)(newId \<mapsto> row)\<rparr>, Inr row))"

text \<open>
  \<open>updateSale\<close>: only the fields present in the argument are written ("Conditional
  Mapping to avoid overwriting with undefined"). \<open>installments\<close> is written only when
  truthy, so a count of 0 is not written. The seller id and name are never written.
  No row with that id is the store's error (\<open>.single()\<close>).
\<close>

definition keep :: "'a option \<Rightarrow> 'a \<Rightarrow> 'a" where
  "keep new old = (case new of None \<Rightarrow> old | Some v \<Rightarrow> v)"

definition keepOpt :: "'a option \<Rightarrow> 'a option \<Rightarrow> 'a option" where
  "keepOpt new old = (case new of None \<Rightarrow> old | Some v \<Rightarrow> Some v)"

definition updateSale :: "store \<Rightarrow> string \<Rightarrow> SalePartial \<Rightarrow> store \<times> (error + Sale)" where
  "updateSale st sid saleData =
     (case sales st sid of
        None \<Rightarrow> (st, Inl StoreError)
      | Some old \<Rightarrow>
          let row = old\<lparr>
                items := keep (p_items saleData) (items old),
                clientName := keepOpt (p_clientName saleData) (clientName old),
                totalValue := keep (p_totalValue saleData) (totalValue old),
                discount := keep (p_discount saleData) (discount old),
                freight := keep (p_freight saleData) (freight old),
                otherCosts := keep (p_otherCosts saleData) (otherCosts old),
                payments := keepOpt (p_payments saleData) (payments old),
                installments := (if p_installments saleData = Some 0 then installments old
                                 else keepOpt (p_installments saleData) (installments old)),
                observation := keepOpt (p_observation saleData) (observation old),
                deliveryAddress := keepOpt (p_deliveryAddress saleData) (deliveryAddress old),
                customerEmail := keepOpt (p_customerEmail saleData) (customerEmail old),
                purchaseOrder := keepOpt (p_purchaseOrder saleData) (purchaseOrder old),
                cashierIdent := keepOpt (p_cashierIdent saleData) (cashierIdent old),
                salespersonId := keepOpt (p_salespersonId saleData) (salespersonId old),
                salespersonName := keepOpt (p_salespersonName saleData) (salespersonName old),
                status := keep (p_status saleData) (status old) \<rparr>
          in (st\<lparr>sales := (sales st)(sid \<mapsto> row)\<rparr>, Inr row))"

subsection \<open>completeSale\<close>

text \<open>Step 2, the items and the discount that are stored on completion:
  \<open>sale.items.reduce((acc, item) => acc + item.total, 0)\<close> is the subtotal; a positive
  discount on a positive subtotal is spread over the items and cleared.\<close>

definition itemsSubTotal :: "SaleItem list \<Rightarrow> rat" where
  "itemsSubTotal its = foldl (\<lambda>acc item. acc + total_item item) 0 its"

definition scaleItem :: "rat \<Rightarrow> SaleItem \<Rightarrow> SaleItem" where
  "scaleItem factor item =
     (let netUnitPrice = unitPrice item * factor
      in item\<lparr>unitPrice := netUnitPrice, total_item := netUnitPrice * quantity item\<rparr>)"

definition distributeDiscount :: "Sale \<Rightarrow> SaleItem list \<times> rat" where
  "distributeDiscount sale =
     (if discount sale > 0 then
        (let subTotal = itemsSubTotal (items sale) in
         if subTotal > 0 then
           (let factor = (subTotal - discount sale) / subTotal
            in (map (scaleItem factor) (items sale), 0))
         else (items sale, discount sale))
      else (items sale, discount sale))"

text \<open>Step 3, the loop over the final items: each iteration reads the product, checks
  it, and writes the decremented stock before the next iteration starts. The loop stops
  at the first failure and returns the products as they are at that moment.\<close>

fun stockLoop :: "(string \<rightharpoonup> Product) \<Rightarrow> SaleItem list \<Rightarrow> (string \<rightharpoonup> Product) \<times> error option" where
  "stockLoop ps [] = (ps, None)"
| "stockLoop ps (item # rest) =
     (case ps (productId item) of
        None \<Rightarrow> (ps, Some (ProductNotFound (productName item)))
      | Some prd \<Rightarrow>
          if stock prd < quantity item
          then (ps, Some (InsufficientStock (name prd) (stock prd)))
          else stockLoop (ps(productId item \<mapsto> prd\<lparr>stock := stock prd - quantity item\<rparr>)) rest)"

definition completeSale :: "store \<Rightarrow> string \<Rightarrow> string \<Rightarrow> string \<Rightarrow> string \<Rightarrow> store \<times> (error + Sale)" where
  "completeSale st sid cid cname now =
     (case sales st sid of
        None \<Rightarrow> (st, Inl NotFound)
      | Some sale \<Rightarrow>
          if status sale = COMPLETED then (st, Inl AlreadyCompleted)
          else
            (let (finalItems, finalDiscount) = distributeDiscount sale;
                 (ps, failure) = stockLoop (products st) finalItems;
                 st1 = st\<lparr>products := ps\<rparr>
             in case failure of
                  Some e \<Rightarrow> (st1, Inl e)
                | None \<Rightarrow>
                    (case sales st1 sid of
                       None \<Rightarrow> (st1, Inl StoreError)
                     | Some row \<Rightarrow>
                         let updated = row\<lparr>status := COMPLETED, cashierId := Some cid,
                               cashierName := Some cname, finishedAt := Some now,
                               items := finalItems, discount := finalDiscount\<rparr>
                         in (st1\<lparr>sales := (sales st1)(sid \<mapsto> updated)\<rparr>, Inr updated))))"

subsection \<open>cancelSale\<close>

text \<open>The loop that returns the items of a completed sale to stock; an item whose
  product is gone is passed over.\<close>

fun restoreLoop :: "(string \<rightharpoonup> Product) \<Rightarrow> SaleItem list \<Rightarrow> (string \<rightharpoonup> Product)" where
  "restoreLoop ps [] = ps"
| "restoreLoop ps (item # rest) =
     (case ps (productId item) of
        None \<Rightarrow> restoreLoop ps rest
      | Some prd \<Rightarrow>
          restoreLoop (ps(productId item \<mapsto> prd\<lparr>stock := stock prd + quantity item\<rparr>)) rest)"

definition cancelSale :: "store \<Rightarrow> string \<Rightarrow> store \<times> (error + Sale)" where
  "cancelSale st sid =
     (case sales st sid of
        None \<Rightarrow> (st, Inl NotFound)
      | Some sale \<Rightarrow>
          (let st1 = (if status sale = COMPLETED
                      then st\<lparr>products := restoreLoop (products st) (items sale)\<rparr>
                      else st)
           in case sales st1 sid of
                None \<Rightarrow> (st1, Inl StoreError)
              | Some row \<Rightarrow>
                  let updated = row\<lparr>status := CANCELLED\<rparr>
                  in (st1\<lparr>sales := (sales st1)(sid \<mapsto> updated)\<rparr>, Inr updated)))"

section \<open>Numbers\<close>

text \<open>
  A JavaScript number is an IEEE 754 binary64 value; it is modelled by the rational
  number it denotes. \<open>fl x\<close> is the double nearest to \<open>x\<close>, a tie going to the even
  significand: \<open>x\<close> is divided by the power of two \<open>u\<close> that brings it into
  \<open>[2^52, 2^53)\<close>, rounded to an integer and multiplied by \<open>u\<close> again. The exponent is
  not bounded, so \<open>fl\<close> neither overflows to Infinity (above about \<open>1.8e308\<close>) nor
  underflows gradually (below about \<open>2.2e-308\<close>), and NaN and the negative zero are not
  values of it.

  The operators written in the item editor, in the handlers of the discount modal and in
  \<open>parseMoney\<close> are the rounded operations \<open>addD\<close>, \<open>subD\<close>, \<open>mulD\<close> and \<open>divD\<close>.
  The sale services, and the sums of the screen over the cart and over the payments
  (\<open>subTotal\<close>, \<open>totalGeneral\<close>, \<open>totalPaid\<close>, \<open>remaining\<close>) with the payment
  handlers that use them, are computed in exact arithmetic.
\<close>

definition roundEven :: "rat \<Rightarrow> int" where
  "roundEven y =
     (let f = \<lfloor>y\<rfloor>; r = y - of_int f
      in if r < 1 / 2 then f else if 1 / 2 < r then f + 1 else if even f then f else f + 1)"

function halvings :: "rat \<Rightarrow> nat" where
  "halvings x = (if 2 \<le> x then Suc (halvings (x / 2)) else 0)"
  by pat_completeness auto
termination
proof (relation "measure (\<lambda>x. nat \<lfloor>x\<rfloor>)")
  show "wf (measure (\<lambda>x::rat. nat \<lfloor>x\<rfloor>))" by simp
next
  fix x :: rat
  assume "2 \<le> x"
  then have "x / 2 \<le> x - 1" by simp
  then have "\<lfloor>x / 2\<rfloor> \<le> \<lfloor>x - 1\<rfloor>" by (rule floor_mono)
  moreover have "\<lfloor>x - 1\<rfloor> = \<lfloor>x\<rfloor> - 1" by simp
  moreover have "2 \<le> \<lfloor>x\<rfloor>" using \<open>2 \<le> x\<close> by (simp add: le_floor_iff)
  ultimately show "(x / 2, x) \<in> measure (\<lambda>x. nat \<lfloor>x\<rfloor>)" by simp
qed

function doublings :: "rat \<Rightarrow> nat" where
  "doublings x = (if 0 < x \<and> x < 1 then Suc (doublings (2 * x)) else 0)"
  by pat_completeness auto
termination
proof (relation "measure (\<lambda>x. nat \<lfloor>1 / x\<rfloor>)")
  show "wf (measure (\<lambda>x::rat. nat \<lfloor>1 / x\<rfloor>))" by simp
next
  fix x :: rat
  assume a: "0 < x \<and> x < 1"
  then have big: "1 < 1 / x" by simp
  have half: "1 / (2 * x) = (1 / x) / 2" by simp
  have "\<lfloor>(1 / x) / 2\<rfloor> < \<lfloor>1 / x\<rfloor>"
  proof (cases "2 \<le> 1 / x")
    case True
    then have "(1 / x) / 2 \<le> 1 / x - 1" by simp
    then have "\<lfloor>(1 / x) / 2\<rfloor> \<le> \<lfloor>1 / x - 1\<rfloor>" by (rule floor_mono)
    then show ?thesis by simp
  next
    case False
    then have "(1 / x) / 2 < 1" by simp
    then have "\<lfloor>(1 / x) / 2\<rfloor> < 1" by (simp add: floor_less_iff)
    moreover have "1 \<le> \<lfloor>1 / x\<rfloor>" using big by (simp add: le_floor_iff)
    ultimately show ?thesis by linarith
  qed
  then have lt: "\<lfloor>1 / (2 * x)\<rfloor> < \<lfloor>1 / x\<rfloor>" unfolding half .
  have "1 \<le> \<lfloor>1 / x\<rfloor>" using big by (simp add: le_floor_iff)
  with lt have "nat \<lfloor>1 / (2 * x)\<rfloor> < nat \<lfloor>1 / x\<rfloor>" by linarith
  then show "(2 * x, x) \<in> measure (\<lambda>x. nat \<lfloor>1 / x\<rfloor>)"
    by (simp only: in_measure)
qed

declare halvings.simps [simp del] doublings.simps [simp del]

definition expo :: "rat \<Rightarrow> int" where
  "expo x = (if 1 \<le> x then int (halvings x) else - int (doublings x))"

definition fl :: "rat \<Rightarrow> rat" where
  "fl x =
     (if x = 0 then 0
      else let u = 2 powi (expo \<bar>x\<bar> - 52)
           in sgn x * of_int (roundEven (\<bar>x\<bar> / u)) * u)"

definition addD :: "rat \<Rightarrow> rat \<Rightarrow> rat" where
  "addD a b = fl (a + b)"

definition subD :: "rat \<Rightarrow> rat \<Rightarrow> rat" where
  "subD a b = fl (a - b)"

definition mulD :: "rat \<Rightarrow> rat \<Rightarrow> rat" where
  "mulD a b = fl (a * b)"

definition divD :: "rat \<Rightarrow> rat \<Rightarrow> rat" where
  "divD a b = fl (a / b)"

text \<open>The literal \<open>0.94\<close> of the item editor is the double nearest to 94/100.\<close>

definition lit_0_94 :: rat where
  "lit_0_94 = fl (94 / 100)"

section \<open>Money utilities of the sales screen\<close>

text \<open>
  \<open>parseMoney\<close> deletes every character that is not a decimal digit
  (the replacement of the non-digit class by the empty string), reads what is left as a
  decimal integer (\<open>parseInt(digits || "0")\<close>) and divides by 100.

  \<open>parseInt\<close> returns a number: the double nearest to the integer that the digits
  spell, which is that integer up to \<open>2^53\<close> and may differ from it above, and Infinity
  from \<open>2^1024 - 2^970\<close> on, half way between the largest double and \<open>2^1024\<close>.
  Infinity divided by 100 is Infinity.
\<close>

definition isDigit :: "char \<Rightarrow> bool" where
  "isDigit c = (48 \<le> (of_char c :: nat) \<and> (of_char c :: nat) \<le> 57)"

definition digitValue :: "char \<Rightarrow> nat" where
  "digitValue c = of_char c - 48"

text \<open>The integer that a string of decimal digits spells.\<close>

definition digitsValue :: "string \<Rightarrow> nat" where
  "digitsValue digits = foldl (\<lambda>acc c. acc * 10 + digitValue c) 0 digits"

datatype number = Finite rat | Infinity

definition toNumber :: "nat \<Rightarrow> number" where
  "toNumber n = (if 2 ^ 1024 - 2 ^ 970 \<le> n then Infinity else Finite (fl (of_nat n)))"

definition parseInt :: "string \<Rightarrow> number" where
  "parseInt digits = toNumber (digitsValue digits)"

definition parseMoney :: "string \<Rightarrow> number" where
  "parseMoney v =
     (let digits = filter isDigit v
      in case parseInt (if digits = [] then ''0'' else digits) of
           Finite i \<Rightarrow> Finite (divD i 100)
         | Infinity \<Rightarrow> Infinity)"

definition nonNegative :: "number \<Rightarrow> bool" where
  "nonNegative x = (case x of Finite r \<Rightarrow> 0 \<le> r | Infinity \<Rightarrow> True)"

text \<open>
  \<open>formatMoney\<close> is \<open>value.toLocaleString('pt-BR', {minimumFractionDigits: 2,
  maximumFractionDigits: 2})\<close>. The library function is modelled by what its
  specification (ECMA-402, number formatting with two fraction digits) prints for this
  locale and these options: the number of cents is the integer \<open>n\<close> for which \<open>n / 100\<close>
  is nearest to the absolute value, the larger one on a tie; then come a minus sign for a
  negative value, the integer part in decimal with a full stop between groups of three
  digits, a comma, and the two digits of the cents.
\<close>

definition digitChar :: "nat \<Rightarrow> char" where
  "digitChar d = char_of (48 + d)"

fun decimal :: "nat \<Rightarrow> string" where
  "decimal n = (if n < 10 then [digitChar n] else decimal (n div 10) @ [digitChar (n mod 10)])"

function groupThousands :: "string \<Rightarrow> string" where
  "groupThousands s =
     (if length s \<le> 3 then s
      else groupThousands (take (length s - 3) s) @ ''.'' @ drop (length s - 3) s)"
  by pat_completeness auto
termination
  by (relation "measure length") auto

declare decimal.simps [simp del] groupThousands.simps [simp del]

definition formatMoney :: "rat \<Rightarrow> string" where
  "formatMoney v =
     (let cents = nat \<lfloor>\<bar>v\<bar> * 100 + 1 / 2\<rfloor>
      in (if v < 0 then ''-'' else [])
         @ groupThousands (decimal (cents div 100))
         @ '','' @ [digitChar (cents mod 100 div 10), digitChar (cents mod 10)])"

section \<open>The state of the sales screen\<close>

text \<open>\<open>Partial<SaleItem>\<close>, the item being edited in the modal: \<open>None\<close> is a field
  that is absent or, for a number typed into an input, not a number.\<close>

record SaleItemPartial =
  e_internalId :: "string option"
  e_productId :: "string option"
  e_productCode :: "string option"
  e_productName :: "string option"
  e_quantity :: "rat option"
  e_unitPrice :: "rat option"
  e_originalPrice :: "rat option"
  e_total :: "rat option"
  e_unit :: "string option"
  e_observation :: "string option"

datatype Tab = TabNew | TabPending | TabHistory

datatype PaymentKey =
  Cash | Debit | Credit | Ticket | Pix | Transfer | Boleto | Cheque | CreditStore

record pos =
  activeTab :: Tab
  editingSaleId :: "string option"
  isCashierConfirming :: bool
  cart :: "SaleItem list"
  posClient :: string
  selectedSellerId :: string
  searchCode :: string
  selectedProduct :: "Product option"
  posDiscount :: rat
  posFreight :: rat
  posOther :: rat
  payments_st :: PaymentDetails
  creditInstallments :: rat
  obs :: string
  deliveryAddress_st :: string
  email :: string
  cashierIdent_st :: string
  purchaseOrder_st :: string
  editModalOpen :: bool
  editItemIndex :: "nat option"
  editItemData :: SaleItemPartial
  discountModalOpen :: bool
  tempDiscountValue :: rat
  tempDiscountPercent :: rat
  discountToken :: string

text \<open>What a handler tells the user: nothing (it returned at once), an error toast, or
  success. The informative toasts of the item editor are \<open>notice\<close>s.\<close>

datatype outcome = Ignored | Rejected error | Accepted

datatype notice = RevertedToOriginal | AdjustedToLimit

definition noPayments :: PaymentDetails where
  "noPayments = \<lparr> cash = 0, debit = 0, credit = 0, ticket = 0, pix = 0, transfer = 0,
     boleto = 0, cheque = 0, creditStore = 0 \<rparr>"

definition getPayment :: "PaymentDetails \<Rightarrow> PaymentKey \<Rightarrow> rat" where
  "getPayment p k = (case k of Cash \<Rightarrow> cash p | Debit \<Rightarrow> debit p | Credit \<Rightarrow> credit p
     | Ticket \<Rightarrow> ticket p | Pix \<Rightarrow> pix p | Transfer \<Rightarrow> transfer p | Boleto \<Rightarrow> boleto p
     | Cheque \<Rightarrow> cheque p | CreditStore \<Rightarrow> creditStore p)"

definition setPayment :: "PaymentDetails \<Rightarrow> PaymentKey \<Rightarrow> rat \<Rightarrow> PaymentDetails" where
  "setPayment p k v = (case k of Cash \<Rightarrow> p\<lparr>cash := v\<rparr> | Debit \<Rightarrow> p\<lparr>debit := v\<rparr>
     | Credit \<Rightarrow> p\<lparr>credit := v\<rparr> | Ticket \<Rightarrow> p\<lparr>ticket := v\<rparr> | Pix \<Rightarrow> p\<lparr>pix := v\<rparr>
     | Transfer \<Rightarrow> p\<lparr>transfer := v\<rparr> | Boleto \<Rightarrow> p\<lparr>boleto := v\<rparr>
     | Cheque \<Rightarrow> p\<lparr>cheque := v\<rparr> | CreditStore \<Rightarrow> p\<lparr>creditStore := v\<rparr>)"


definition paymentValues :: "PaymentDetails \<Rightarrow> rat list" where
  "paymentValues p = [cash p, debit p, credit p, pix p, boleto p, creditStore p, ticket p,
     transfer p, cheque p]"

subsection \<open>Derived values, recomputed on every render\<close>

definition subTotal :: "pos \<Rightarrow> rat" where
  "subTotal s = foldl (\<lambda>acc item. acc + total_item item) 0 (cart s)"

definition totalGeneral :: "pos \<Rightarrow> rat" where
  "totalGeneral s = max 0 (subTotal s - posDiscount s + posFreight s + posOther s)"

definition totalPaid :: "pos \<Rightarrow> rat" where
  "totalPaid s = foldl (\<lambda>acc val. acc + val) 0 (paymentValues (payments_st s))"

definition remaining :: "pos \<Rightarrow> rat" where
  "remaining s = max 0 (totalGeneral s - totalPaid s)"

definition resetSalesState :: "pos \<Rightarrow> pos" where
  "resetSalesState s = s\<lparr> editingSaleId := None, isCashierConfirming := False, cart := [],
     posClient := [], posDiscount := 0, posFreight := 0, posOther := 0,
     payments_st := noPayments, creditInstallments := 1, obs := [],
     deliveryAddress_st := [], email := [], purchaseOrder_st := [], cashierIdent_st := [],
     searchCode := [], selectedProduct := None, selectedSellerId := [] \<rparr>"

subsection \<open>Editing a cart item\<close>

text \<open>\<open>a || b\<close> on a number that may be missing: \<open>a\<close> unless it is missing or zero.\<close>

definition orElse :: "rat option \<Rightarrow> rat \<Rightarrow> rat" where
  "orElse a b = (case a of None \<Rightarrow> b | Some x \<Rightarrow> if x = 0 then b else x)"

definition truthy :: "rat option \<Rightarrow> bool" where
  "truthy a = (case a of None \<Rightarrow> False | Some x \<Rightarrow> x \<noteq> 0)"

definition noItemFields :: SaleItemPartial where
  "noItemFields = \<lparr> e_internalId = None, e_productId = None, e_productCode = None,
     e_productName = None, e_quantity = None, e_unitPrice = None, e_originalPrice = None,
     e_total = None, e_unit = None, e_observation = None \<rparr>"

definition toPartial :: "SaleItem \<Rightarrow> SaleItemPartial" where
  "toPartial item = \<lparr> e_internalId = internalId item, e_productId = Some (productId item),
     e_productCode = productCode item, e_productName = Some (productName item),
     e_quantity = Some (quantity item), e_unitPrice = Some (unitPrice item),
     e_originalPrice = Some (originalPrice item), e_total = Some (total_item item),
     e_unit = unit_item item, e_observation = observation_item item \<rparr>"

text \<open>\<open>openEditModal\<close>: \<open>{ ...cart[idx] }\<close> is the item's fields, and no field at all
  for an index outside the cart. The screen offers it only on a row of the cart, with
  no global discount applied and outside the cashier's confirmation.\<close>

definition openEditModal :: "pos \<Rightarrow> nat \<Rightarrow> pos" where
  "openEditModal s idx =
     s\<lparr> editItemIndex := Some idx,
        editItemData := (if idx < length (cart s) then toPartial (cart s ! idx) else noItemFields),
        editModalOpen := True \<rparr>"

text \<open>\<open>{ ...updatedCart[editItemIndex], ...editItemData, unitPrice, total }\<close>: the fields
  present in the edited data replace those of the cart's item.\<close>

definition mergeItem :: "SaleItem \<Rightarrow> SaleItemPartial \<Rightarrow> rat \<Rightarrow> rat \<Rightarrow> SaleItem" where
  "mergeItem old d finalPrice newTotal =
     \<lparr> internalId = keepOpt (e_internalId d) (internalId old),
       productId = keep (e_productId d) (productId old),
       productCode = keepOpt (e_productCode d) (productCode old),
       productName = keep (e_productName d) (productName old),
       quantity = keep (e_quantity d) (quantity old),
       unitPrice = finalPrice,
       originalPrice = keep (e_originalPrice d) (originalPrice old),
       total_item = newTotal,
       unit_item = keepOpt (e_unit d) (unit_item old),
       observation_item = keepOpt (e_observation d) (observation_item old) \<rparr>"

text \<open>
  \<open>saveEditItem\<close>. Without an index, or with a quantity that is missing or zero, the
  body of the \<open>if\<close> is skipped: the state stays as it is, the modal open, and nothing is
  signalled (\<open>Saved s []\<close>). Otherwise the price is settled, the floor being the double
  product \<open>original * 0.94\<close>, and the total is the double product of the quantity and the
  final price. At an index inside the cart the item is replaced and the modal closed. At
  an index beyond the cart there is no item to merge into: JavaScript writes the edited
  fields alone at that index and leaves holes between the old end of the array and the
  index, which a list of items cannot hold; this is the result \<open>SavedBeyond\<close>, with the
  index, the object written and the notices.
\<close>

datatype saved = Saved pos "notice list" | SavedBeyond nat SaleItemPartial "notice list"

definition saveEditItem :: "pos \<Rightarrow> saved" where
  "saveEditItem s =
     (case editItemIndex s of
        None \<Rightarrow> Saved s []
      | Some idx \<Rightarrow>
          let d = editItemData s in
          if \<not> truthy (e_quantity d) then Saved s []
          else
            let original = orElse (e_originalPrice d) (orElse (e_unitPrice d) 0);
                reverted = \<not> truthy (e_unitPrice d);
                price1 = (if reverted then original else orElse (e_unitPrice d) 0);
                minAllowedPrice = mulD original lit_0_94;
                adjusted = price1 < minAllowedPrice;
                finalPrice = (if adjusted then minAllowedPrice else price1);
                newTotal = mulD (orElse (e_quantity d) 0) finalPrice;
                notices = (if reverted then [RevertedToOriginal] else [])
                          @ (if adjusted then [AdjustedToLimit] else [])
            in if idx < length (cart s)
               then Saved (s\<lparr> cart := (cart s)[idx := mergeItem (cart s ! idx) d finalPrice newTotal],
                              editModalOpen := False \<rparr>) notices
               else SavedBeyond idx (d\<lparr> e_unitPrice := Some finalPrice, e_total := Some newTotal \<rparr>)
                      notices)"

subsection \<open>The discount modal\<close>

text \<open>\<open>cart.reduce((acc, item) => acc + (item.quantity * (item.originalPrice ||
  item.unitPrice)), 0)\<close>: the baseline of an item is its original price, or its unit
  price when the original price is zero.\<close>

definition baselinePrice :: "SaleItem \<Rightarrow> rat" where
  "baselinePrice item = (if originalPrice item = 0 then unitPrice item else originalPrice item)"

definition totalOriginalValue :: "pos \<Rightarrow> rat" where
  "totalOriginalValue s =
     foldl (\<lambda>acc item. addD acc (mulD (quantity item) (baselinePrice item))) 0 (cart s)"

definition discountFromItems :: "pos \<Rightarrow> rat" where
  "discountFromItems s = subD (totalOriginalValue s) (subTotal s)"

text \<open>The percentage every handler of the modal computes for a global discount \<open>g\<close>.\<close>

definition effectivePercent :: "pos \<Rightarrow> rat \<Rightarrow> rat" where
  "effectivePercent s g =
     (let totalDiscount = addD (discountFromItems s) g
      in if totalOriginalValue s > 0 then mulD (divD totalDiscount (totalOriginalValue s)) 100
         else 0)"

definition openDiscountModal :: "pos \<Rightarrow> pos" where
  "openDiscountModal s =
     (if isCashierConfirming s then s
      else s\<lparr> tempDiscountValue := posDiscount s,
              tempDiscountPercent := effectivePercent s (posDiscount s),
              discountToken := [], discountModalOpen := True \<rparr>)"

definition handleDiscountValueChange :: "pos \<Rightarrow> rat \<Rightarrow> pos" where
  "handleDiscountValueChange s val =
     s\<lparr> tempDiscountValue := val, tempDiscountPercent := effectivePercent s val \<rparr>"

definition handleDiscountPercentChange :: "pos \<Rightarrow> rat \<Rightarrow> pos" where
  "handleDiscountPercentChange s pct =
     (let targetTotalDiscount = divD (mulD (totalOriginalValue s) pct) 100;
          neededGlobalDiscount = max 0 (subD targetTotalDiscount (discountFromItems s))
      in s\<lparr> tempDiscountPercent := pct, tempDiscountValue := neededGlobalDiscount \<rparr>)"

definition handleDiscountTotalChange :: "pos \<Rightarrow> rat \<Rightarrow> pos" where
  "handleDiscountTotalChange s totalComDesconto =
     (let newGlobalDiscount = max 0 (subD (subTotal s) totalComDesconto)
      in s\<lparr> tempDiscountValue := newGlobalDiscount,
              tempDiscountPercent := effectivePercent s newGlobalDiscount \<rparr>)"




subsection \<open>Payments\<close>

definition handlePaymentChange :: "pos \<Rightarrow> PaymentKey \<Rightarrow> rat \<Rightarrow> pos \<times> outcome" where
  "handlePaymentChange s k v =
     (let currentFieldValue = getPayment (payments_st s) k;
          totalPaidByOthers = totalPaid s - currentFieldValue;
          roomLeft = totalGeneral s - totalPaidByOthers
      in if v > roomLeft + 1 / 1000 then (s, Rejected (ExceedsRemaining roomLeft))
         else (s\<lparr> payments_st := setPayment (payments_st s) k v \<rparr>, Accepted))"

text \<open>The Enter key in a payment field adds what remains to that field.\<close>

definition handlePaymentEnter :: "pos \<Rightarrow> PaymentKey \<Rightarrow> pos \<times> outcome" where
  "handlePaymentEnter s k =
     handlePaymentChange s k (getPayment (payments_st s) k + remaining s)"

subsection \<open>Submitting and finalizing\<close>

text \<open>\<open>posClient.trim() === ''\<close>: nothing but white space (the ASCII white space
  characters here).\<close>

definition isBlank :: "string \<Rightarrow> bool" where
  "isBlank v = list_all (\<lambda>c. (of_char c :: nat) \<in> {9, 10, 11, 12, 13, 32}) v"

definition noSession :: "User option \<Rightarrow> bool" where
  "noSession u = (case u of None \<Rightarrow> True | Some usr \<Rightarrow> id_user usr = [])"

definition salePayload :: "User \<Rightarrow> Seller list \<Rightarrow> pos \<Rightarrow> bool \<Rightarrow> SalePartial" where
  "salePayload usr sellers s asBudget =
     \<lparr> p_sellerId = Some (id_user usr), p_sellerName = Some (name_user usr),
       p_salespersonId = Some (selectedSellerId s),
       p_salespersonName = Some (case find (\<lambda>x. id_seller x = selectedSellerId s) sellers of
                                   None \<Rightarrow> ''Desconhecido''
                                 | Some x \<Rightarrow> if name_seller x = [] then ''Desconhecido''
                                             else name_seller x),
       p_items = Some (cart s), p_totalValue = Some (totalGeneral s),
       p_status = Some (if asBudget then BUDGET else PENDING),
       p_clientName = Some (if isBlank (posClient s) then ''CONSUMIDOR FINAL'' else posClient s),
       p_discount = Some (posDiscount s), p_freight = Some (posFreight s),
       p_otherCosts = Some (posOther s), p_payments = Some (payments_st s),
       p_installments = Some (creditInstallments s), p_observation = Some (obs s),
       p_deliveryAddress = Some (deliveryAddress_st s),
       p_purchaseOrder = Some (purchaseOrder_st s), p_customerEmail = Some (email s),
       p_cashierIdent = Some (cashierIdent_st s) \<rparr>"

text \<open>
  \<open>handleSubmitSale\<close>. The checks come in the source's order and each one returns
  before anything is written. \<open>newId\<close> and \<open>now\<close> are what the store would assign to a
  created row.
\<close>

definition handleSubmitSale ::
  "User option \<Rightarrow> Seller list \<Rightarrow> string \<Rightarrow> string \<Rightarrow> pos \<Rightarrow> store \<Rightarrow> bool \<Rightarrow> pos \<times> store \<times> outcome" where
  "handleSubmitSale u sellers newId now s st asBudget =
     (if cart s = [] then (s, st, Rejected ValidationError)
      else if selectedSellerId s = [] then (s, st, Rejected ValidationError)
      else if \<not> asBudget \<and> totalGeneral s > 0 \<and> totalPaid s = 0
        then (s, st, Rejected NoPaymentSelected)
      else if \<not> asBudget \<and> totalGeneral s > 0 \<and> \<bar>totalPaid s - totalGeneral s\<bar> > 5 / 100
        then (s, st, Rejected (PaymentMismatch (totalGeneral s - totalPaid s)))
      else if noSession u then (s, st, Rejected ValidationError)
      else
        (let payload = salePayload (the u) sellers s asBudget;
             (st', r) = (case editingSaleId s of
                           Some sid \<Rightarrow> updateSale st sid payload
                         | None \<Rightarrow> createSale st newId now payload)
         in case r of
              Inl e \<Rightarrow> (s, st', Rejected StoreError)
            | Inr row \<Rightarrow> (resetSalesState s, st', Accepted)))"

text \<open>
  \<open>handleCashierFinalize\<close>: the payments typed by the cashier are stored on the sale,
  then the sale is completed. An error of either service is shown as it is.
\<close>

definition handleCashierFinalize :: "User option \<Rightarrow> string \<Rightarrow> pos \<Rightarrow> store \<Rightarrow> pos \<times> store \<times> outcome" where
  "handleCashierFinalize u now s st =
     (case editingSaleId s of
        None \<Rightarrow> (s, st, Ignored)
      | Some sid \<Rightarrow>
          if noSession u then (s, st, Ignored)
          else
            (let paid = totalPaid s in
             if \<bar>paid - totalGeneral s\<bar> > 5 / 100
             then (s, st, Rejected (PaymentMismatch (totalGeneral s - paid)))
             else
               (case updateSale st sid (noFields\<lparr> p_payments := Some (payments_st s),
                        p_installments := Some (creditInstallments s),
                        p_cashierIdent := Some (cashierIdent_st s) \<rparr>) of
                  (st1, Inl e) \<Rightarrow> (s, st1, Rejected e)
                | (st1, Inr row) \<Rightarrow>
                    (case completeSale st1 sid (id_user (the u)) (name_user (the u)) now of
                       (st2, Inl e) \<Rightarrow> (s, st2, Rejected e)
                     | (st2, Inr finished) \<Rightarrow>
                         ((resetSalesState s)\<lparr>activeTab := TabPending\<rparr>, st2, Accepted)))))"

section \<open>The scenario data of the specification\<close>

text \<open>Product A (price 10.00, stock 5), product B (price 5.00, stock 7), and sales
  over them: the data of the scenarios in the specification's testable properties.\<close>

definition productA :: Product where
  "productA = \<lparr> id_product = ''A'', code = ''001'', name = ''Product A'', description = [],
     price = 10, stock = 5, category = [], unit_product = ''UNID'', active = True \<rparr>"

definition productB :: Product where
  "productB = \<lparr> id_product = ''B'', code = ''002'', name = ''Product B'', description = [],
     price = 5, stock = 7, category = [], unit_product = ''UNID'', active = True \<rparr>"

definition lineA :: "rat \<Rightarrow> rat \<Rightarrow> SaleItem" where
  "lineA q p = \<lparr> internalId = None, productId = ''A'', productCode = Some ''001'',
     productName = ''Product A'', quantity = q, unitPrice = p, originalPrice = 10,
     total_item = p * q, unit_item = Some ''UNID'', observation_item = None \<rparr>"

definition lineB :: "rat \<Rightarrow> rat \<Rightarrow> SaleItem" where
  "lineB q p = \<lparr> internalId = None, productId = ''B'', productCode = Some ''002'',
     productName = ''Product B'', quantity = q, unitPrice = p, originalPrice = 5,
     total_item = p * q, unit_item = Some ''UNID'', observation_item = None \<rparr>"


definition saleOf :: "SaleItem list \<Rightarrow> SaleStatus \<Rightarrow> rat \<Rightarrow> Sale" where
  "saleOf its s d = \<lparr> id_sale = ''s1'', sellerId = Some ''u1'', sellerName = Some ''Rui'',
     salespersonId = Some ''v1'', salespersonName = Some ''Lia'', cashierId = None,
     cashierName = None, items = its, totalValue = foldl (\<lambda>acc item. acc + total_item item) 0 its - d,
     status = s, createdAt = ''t0'', finishedAt = None, clientName = Some ''CONSUMIDOR FINAL'',
     discount = d, freight = 0, otherCosts = 0, payments = None, installments = Some 1,
     observation = None, deliveryAddress = None, purchaseOrder = None,
     customerEmail = None, cashierIdent = None \<rparr>"

definition storeOf :: "SaleItem list \<Rightarrow> SaleStatus \<Rightarrow> rat \<Rightarrow> store" where
  "storeOf its s d = \<lparr> products = [''A'' \<mapsto> productA, ''B'' \<mapsto> productB],
     sales = [''s1'' \<mapsto> saleOf its s d] \<rparr>"

text \<open>The sales screen as it starts, holding a given cart.\<close>

definition posOf :: "SaleItem list \<Rightarrow> pos" where
  "posOf its = \<lparr> activeTab = TabNew, editingSaleId = None, isCashierConfirming = False,
     cart = its, posClient = [], selectedSellerId = [], searchCode = [],
     selectedProduct = None, posDiscount = 0, posFreight = 0, posOther = 0,
     payments_st = noPayments, creditInstallments = 1, obs = [], deliveryAddress_st = [],
     email = [], cashierIdent_st = [], purchaseOrder_st = [], editModalOpen = False,
     editItemIndex = None,
     editItemData = noItemFields,
     discountModalOpen = False, tempDiscountValue = 0, tempDiscountPercent = 0,
     discountToken = [] \<rparr>"

definition cashierUser :: User where
  "cashierUser = \<lparr> id_user = ''u2'', name_user = ''Caio'', username = ''caio'',
     role = CASHIER, active_user = True \<rparr>"

text \<open>The edit modal opened on a cart of 2 units of A, with a price and a quantity typed in.\<close>

definition editing :: "rat option \<Rightarrow> rat \<Rightarrow> pos" where
  "editing p q = (openEditModal (posOf [lineA 2 10]) 0)
     \<lparr>editItemData := (toPartial (lineA 2 10))\<lparr>e_unitPrice := p, e_quantity := Some q\<rparr>\<rparr>"


text \<open>The cashier's confirmation of a pending sale of one item of 0.03, nothing paid.\<close>

definition tinySale :: pos where
  "tinySale = (posOf [lineA 1 (3 / 100)])\<lparr>editingSaleId := Some ''s1'', selectedSellerId := ''v1'',
     isCashierConfirming := True\<rparr>"

section \<open>Rounding to a double\<close>

lemma roundEven_error: "\<bar>of_int (roundEven y) - y\<bar> \<le> 1 / 2"
proof -
  define f where "f = \<lfloor>y\<rfloor>"
  define d where "d = y - of_int f"
  have d0: "0 \<le> d" and d1: "d < 1" unfolding d_def f_def by linarith+
  have y: "y = of_int f + d" by (simp add: d_def)
  have r: "roundEven y = (if d < 1 / 2 then f else if 1 / 2 < d then f + 1
                          else if even f then f else f + 1)"
    by (simp add: roundEven_def Let_def f_def d_def)
  show ?thesis
  proof (cases "d < 1 / 2")
    case True
    then have "roundEven y = f" using r by simp
    then have "of_int (roundEven y) - y = - d" using y by simp
    with d0 True show ?thesis by simp
  next
    case False
    show ?thesis
    proof (cases "1 / 2 < d")
      case True
      then have "roundEven y = f + 1" using r False by simp
      then have "of_int (roundEven y) - y = 1 - d" using y by simp
      with d1 True show ?thesis by simp
    next
      case nb: False
      with False have half: "d = 1 / 2" by simp
      have "roundEven y = f \<or> roundEven y = f + 1" using r by simp
      then have "of_int (roundEven y) - y = - d \<or> of_int (roundEven y) - y = 1 - d"
        using y by auto
      with half show ?thesis by auto
    qed
  qed
qed

lemma roundEven_near: "\<bar>y - of_int r\<bar> < 1 / 2 \<Longrightarrow> roundEven y = r"
proof -
  assume a: "\<bar>y - of_int r\<bar> < 1 / 2"
  have e: "\<bar>of_int (roundEven y) - y\<bar> \<le> 1 / 2" by (rule roundEven_error)
  from a e have "\<bar>(of_int (roundEven y) :: rat) - of_int r\<bar> < 1" by linarith
  then have "\<bar>(of_int (roundEven y - r) :: rat)\<bar> < 1" by simp
  then have "\<bar>roundEven y - r\<bar> < 1"
    by (metis of_int_abs of_int_less_1_iff)
  then show ?thesis by simp
qed

lemma roundEven_tie_down: "y = of_int r + 1 / 2 \<Longrightarrow> even r \<Longrightarrow> roundEven y = r"
proof -
  assume y: "y = of_int r + 1 / 2" and ev: "even r"
  have "\<lfloor>y\<rfloor> = r" unfolding y by (rule floor_unique) simp_all
  then show ?thesis using ev by (simp add: roundEven_def Let_def y)
qed

lemma roundEven_tie_up: "y = of_int r - 1 / 2 \<Longrightarrow> even r \<Longrightarrow> roundEven y = r"
proof -
  assume y: "y = of_int r - 1 / 2" and ev: "even r"
  have "\<lfloor>y\<rfloor> = r - 1" unfolding y by (rule floor_unique) simp_all
  then show ?thesis using ev by (simp add: roundEven_def Let_def y)
qed

lemma roundEven_nonneg: "0 \<le> y \<Longrightarrow> 0 \<le> roundEven y"
  by (auto simp add: roundEven_def Let_def)

lemma roundEven_of_int: "roundEven (of_int k) = k"
  by (rule roundEven_near) simp

lemma halvings_bounds: "1 \<le> x \<Longrightarrow> 2 ^ halvings x \<le> x \<and> x < 2 ^ Suc (halvings x)"
proof (induction x rule: halvings.induct)
  case (1 x)
  show ?case
  proof (cases "2 \<le> x")
    case True
    then have "1 \<le> x / 2" by simp
    with 1 True have "2 ^ halvings (x / 2) \<le> x / 2 \<and> x / 2 < 2 ^ Suc (halvings (x / 2))"
      by blast
    moreover have "halvings x = Suc (halvings (x / 2))"
      using True by (subst halvings.simps) simp
    ultimately show ?thesis by simp
  next
    case False
    then have "halvings x = 0" by (subst halvings.simps) simp
    with False 1 show ?thesis by simp
  qed
qed

lemma doublings_bounds:
  "0 < x \<Longrightarrow> x < 1 \<Longrightarrow> 1 \<le> x * 2 ^ doublings x \<and> x * 2 ^ doublings x < 2"
proof (induction x rule: doublings.induct)
  case (1 x)
  have step: "doublings x = Suc (doublings (2 * x))"
    using 1(2,3) by (subst doublings.simps) simp
  show ?case
  proof (cases "2 * x < 1")
    case True
    with 1 have "1 \<le> 2 * x * 2 ^ doublings (2 * x) \<and> 2 * x * 2 ^ doublings (2 * x) < 2"
      by simp
    then show ?thesis unfolding step by (simp add: mult.assoc mult.left_commute)
  next
    case False
    then have "doublings (2 * x) = 0" by (subst doublings.simps) simp
    with False 1(3) show ?thesis unfolding step by simp
  qed
qed

lemma expo_bounds:
  assumes "0 < x"
  shows "2 powi expo x \<le> x \<and> x < 2 powi (expo x + 1)"
proof (cases "1 \<le> x")
  case True
  from halvings_bounds [OF True] True show ?thesis
    by (simp add: expo_def power_int_add)
next
  case False
  then have lt: "x < 1" by simp
  from doublings_bounds [OF assms lt]
  have a: "1 \<le> x * 2 ^ doublings x" and b: "x * 2 ^ doublings x < 2" by simp_all
  have p: "(0::rat) < 2 ^ doublings x" by simp
  have e: "expo x = - int (doublings x)" using False by (simp add: expo_def)
  have lo: "2 powi (- int (doublings x)) \<le> x"
    using a p by (simp add: power_int_minus field_simps)
  have hi: "x < 2 powi (- int (doublings x) + 1)"
  proof -
    have "(2::rat) powi (1 - int (doublings x)) = 2 powi 1 / 2 powi int (doublings x)"
      by (rule power_int_diff) simp
    then have "(2::rat) powi (- int (doublings x) + 1) = 2 / 2 ^ doublings x"
      by simp
    moreover have "x < 2 / 2 ^ doublings x" using b p by (simp add: field_simps)
    ultimately show ?thesis by simp
  qed
  from lo hi show ?thesis unfolding e by simp
qed

lemma expo_unique:
  assumes "2 powi e \<le> x" and "x < 2 powi (e + 1)"
  shows "expo x = e"
proof -
  have pos: "0 < x" using assms(1) by (rule less_le_trans [rotated]) simp
  from expo_bounds [OF pos] have a: "2 powi expo x \<le> x" and b: "x < 2 powi (expo x + 1)"
    by simp_all
  have 1: "expo x < e + 1"
  proof (rule ccontr)
    assume "\<not> expo x < e + 1"
    then have "e + 1 \<le> expo x" by simp
    then have "(2::rat) powi (e + 1) \<le> 2 powi expo x" by (rule power_int_increasing) simp
    with a assms(2) show False by linarith
  qed
  have 2: "e < expo x + 1"
  proof (rule ccontr)
    assume "\<not> e < expo x + 1"
    then have "expo x + 1 \<le> e" by simp
    then have "(2::rat) powi (expo x + 1) \<le> 2 powi e" by (rule power_int_increasing) simp
    with b assms(1) show False by linarith
  qed
  from 1 2 show ?thesis by simp
qed

lemma fl_zero: "fl 0 = 0"
  by (simp add: fl_def)

lemma fl_pos_eq:
  assumes "2 powi e \<le> x" and "x < 2 powi (e + 1)"
  shows "fl x = of_int (roundEven (x / 2 powi (e - 52))) * 2 powi (e - 52)"
proof -
  have pos: "0 < x" using assms(1) by (rule less_le_trans [rotated]) simp
  from expo_unique [OF assms] pos show ?thesis
    by (simp add: fl_def Let_def)
qed

lemma fl_eval:
  assumes "2 powi e \<le> x" and "x < 2 powi (e + 1)" and "roundEven (x / 2 powi (e - 52)) = r"
  shows "fl x = of_int r * 2 powi (e - 52)"
  using fl_pos_eq [OF assms(1,2)] assms(3) by simp

lemma fl_error: "\<bar>fl x - x\<bar> \<le> \<bar>x\<bar> / 2 ^ 53"
proof (cases "x = 0")
  case True
  then show ?thesis by (simp add: fl_def)
next
  case False
  define a where "a = \<bar>x\<bar>"
  define u :: rat where "u = 2 powi (expo a - 52)"
  define r where "r = roundEven (a / u)"
  have apos: "0 < a" using False by (simp add: a_def)
  have upos: "0 < u" by (simp add: u_def)
  from expo_bounds [OF apos] have lo: "2 powi expo a \<le> a" by simp
  have usplit: "u = 2 powi expo a / 2 ^ 52"
    by (simp add: u_def power_int_diff)
  have ule: "u \<le> a / 2 ^ 52" unfolding usplit using lo by (simp add: divide_right_mono)
  have "\<bar>of_int r - a / u\<bar> \<le> 1 / 2" unfolding r_def by (rule roundEven_error)
  then have "\<bar>of_int r - a / u\<bar> * u \<le> (1 / 2) * u"
    using upos by (simp add: mult_right_mono)
  moreover have "\<bar>of_int r - a / u\<bar> * u = \<bar>of_int r * u - a\<bar>"
    using upos by (simp add: abs_mult [symmetric] left_diff_distrib abs_mult_pos)
  ultimately have err: "\<bar>of_int r * u - a\<bar> \<le> u / 2" by simp
  have flx: "fl x = sgn x * (of_int r * u)"
    using False by (simp add: fl_def Let_def a_def u_def r_def mult.assoc)
  have xs: "x = sgn x * a" by (simp add: a_def mult_sgn_abs)
  have "fl x - x = sgn x * (of_int r * u - a)"
    unfolding flx by (subst (2) xs) (simp add: right_diff_distrib)
  then have "\<bar>fl x - x\<bar> = \<bar>sgn x * (of_int r * u - a)\<bar>" by simp
  also have "\<dots> = \<bar>of_int r * u - a\<bar>"
    using False by (simp add: abs_mult abs_sgn_eq)
  also have "\<dots> \<le> u / 2" by (rule err)
  also have "\<dots> \<le> (a / 2 ^ 52) / 2" using ule by simp
  also have "\<dots> = a / 2 ^ 53" by simp
  finally show ?thesis unfolding a_def .
qed

lemma fl_nonneg: "0 \<le> x \<Longrightarrow> 0 \<le> fl x"
proof (cases "x = 0")
  case True then show ?thesis by (simp add: fl_def)
next
  case False
  assume "0 \<le> x"
  with False have pos: "0 < x" by simp
  have "0 \<le> roundEven (\<bar>x\<bar> / 2 powi (expo \<bar>x\<bar> - 52))"
    by (rule roundEven_nonneg) simp
  with pos show ?thesis by (simp add: fl_def Let_def)
qed

text \<open>A double is its own rounding; so is every integer up to \<open>2^53\<close>.\<close>

lemma fl_fix:
  assumes "0 < x" and "x = of_int k * 2 powi (expo x - 52)"
  shows "fl x = x"
proof -
  define u :: rat where "u = 2 powi (expo x - 52)"
  have upos: "0 < u" unfolding u_def by simp
  have xk: "x = of_int k * u" using assms(2) unfolding u_def .
  have "x / u = of_int k" using upos by (simp add: xk)
  then have r: "roundEven (x / u) = k" by (simp add: roundEven_of_int)
  from expo_bounds [OF assms(1)]
  have "fl x = of_int (roundEven (x / 2 powi (expo x - 52))) * 2 powi (expo x - 52)"
    by (intro fl_pos_eq) simp_all
  then have "fl x = of_int (roundEven (x / u)) * u" unfolding u_def .
  with r xk show ?thesis by simp
qed

lemma fl_two_53: "fl 9007199254740992 = 9007199254740992"
proof -
  have r: "roundEven (9007199254740992 / 2 powi (53 - 52)) = 4503599627370496"
    by (rule roundEven_near) simp_all
  have "fl 9007199254740992 = of_int 4503599627370496 * 2 powi (53 - 52)"
    by (rule fl_eval [OF _ _ r]) simp_all
  then show ?thesis by simp
qed

lemma fl_of_nat_exact:
  assumes "n \<le> 2 ^ 53"
  shows "fl (of_nat n) = of_nat n"
proof -
  consider "n = 0" | "n = 2 ^ 53" | "0 < n" "n < 2 ^ 53" using assms by linarith
  then show ?thesis
  proof cases
    case 1
    then show ?thesis by (simp add: fl_zero)
  next
    case 2
    then show ?thesis using fl_two_53 by simp
  next
    case 3
    define x :: rat where "x = of_nat n"
    define e where "e = expo x"
    have xpos: "0 < x" using 3(1) by (simp add: x_def)
    have "(of_nat n :: rat) < of_nat (2 ^ 53)" using 3(2) by (simp only: of_nat_less_iff)
    then have xlt: "x < 2 powi 53" unfolding x_def by simp
    from expo_bounds [OF xpos] have lo: "2 powi e \<le> x" by (simp add: e_def)
    have "e < 53"
    proof (rule ccontr)
      assume "\<not> e < 53"
      then have "(2::rat) powi 53 \<le> 2 powi e" by (intro power_int_increasing) simp_all
      with lo xlt show False by linarith
    qed
    define m where "m = nat (52 - e)"
    have me: "int m = 52 - e" using \<open>e < 53\<close> by (simp add: m_def)
    have "(2::rat) powi (int m) * 2 powi (e - 52) = 2 powi (int m + (e - 52))"
      by (simp add: power_int_add)
    also have "\<dots> = 1" by (simp add: me)
    finally have one: "(2::rat) ^ m * 2 powi (e - 52) = 1" by simp
    have "of_int (int n * 2 ^ m) * 2 powi (e - 52) = x * ((2::rat) ^ m * 2 powi (e - 52))"
      by (simp add: x_def)
    also have "\<dots> = x" by (simp only: one mult_1_right)
    finally have "x = of_int (int n * 2 ^ m) * 2 powi (expo x - 52)" by (simp add: e_def)
    from fl_fix [OF xpos this] show ?thesis by (simp add: x_def)
  qed
qed

lemma fl_numeral [simp]:
  "numeral k \<le> (9007199254740992::nat) \<Longrightarrow> fl (numeral k) = numeral k"
  using fl_of_nat_exact [of "numeral k"] by simp

lemma fl_one [simp]: "fl 1 = 1"
  using fl_of_nat_exact [of 1] by simp

lemma fl_minus: "fl (- x) = - fl x"
  by (simp add: fl_def Let_def)

lemma fl_nonpos: "x \<le> 0 \<Longrightarrow> fl x \<le> 0"
  using fl_nonneg [of "- x"] by (simp add: fl_minus)

lemmas scenario_defs = productA_def productB_def lineA_def lineB_def saleOf_def storeOf_def
  posOf_def cashierUser_def noPayments_def noItemFields_def

section \<open>Completion: discount redistribution\<close>





lemma completeSale_cases:
  assumes "sales st sid = Some sale" "status sale \<noteq> COMPLETED"
    and "distributeDiscount sale = (fi, fd)"
  shows "completeSale st sid cid cname now =
     (case stockLoop (products st) fi of
        (ps, Some e) \<Rightarrow> (st\<lparr>products := ps\<rparr>, Inl e)
      | (ps, None) \<Rightarrow>
          (st\<lparr>products := ps, sales := (sales st)(sid \<mapsto> sale\<lparr>status := COMPLETED, cashierId := Some cid,
                               cashierName := Some cname, finishedAt := Some now,
                               items := fi, discount := fd\<rparr>)\<rparr>,
           Inr (sale\<lparr>status := COMPLETED, cashierId := Some cid,
                               cashierName := Some cname, finishedAt := Some now,
                               items := fi, discount := fd\<rparr>)))"
  using assms by (simp add: completeSale_def Let_def split: prod.splits option.splits)



section \<open>Completion: the stock loop\<close>





section \<open>Cancellation\<close>




section \<open>The Cancelled status\<close>

text \<open>
  C2, as stated, fails: \<open>completeSale\<close> refuses only a Completed sale. Here a
  Cancelled sale of 2 units of A is completed.
\<close>

theorem cancelled_sale_can_be_completed:
  "map_option status (sales (storeOf [lineA 2 10] CANCELLED 0) ''s1'') = Some CANCELLED \<and>
   map_option status
     (sales (fst (completeSale (storeOf [lineA 2 10] CANCELLED 0) ''s1'' ''u2'' ''Caio'' ''t1'')) ''s1'')
     = Some COMPLETED"
  by (simp add: completeSale_def scenario_defs distributeDiscount_def Let_def)

text \<open>
  C2, amended. For a sale whose status is Cancelled: \<open>cancelSale\<close> leaves it
  Cancelled and changes no product; \<open>completeSale\<close> does not refuse it: when every
  item passes the stock loop the status becomes Completed, otherwise the sales table is
  left as it was; \<open>updateSale\<close> stores the status its argument carries, and keeps
  Cancelled when it carries none.
\<close>

theorem cancelled_sale_transitions:
  assumes "sales st sid = Some sale" and "status sale = CANCELLED"
  shows "map_option status (sales (fst (cancelSale st sid)) sid) = Some CANCELLED
     \<and> products (fst (cancelSale st sid)) = products st
     \<and> (snd (stockLoop (products st) (fst (distributeDiscount sale))) = None \<longrightarrow>
          map_option status (sales (fst (completeSale st sid cid cname now)) sid) = Some COMPLETED)
     \<and> (snd (stockLoop (products st) (fst (distributeDiscount sale))) \<noteq> None \<longrightarrow>
          sales (fst (completeSale st sid cid cname now)) = sales st)
     \<and> map_option status (sales (fst (updateSale st sid saleData)) sid)
          = Some (case p_status saleData of None \<Rightarrow> CANCELLED | Some s \<Rightarrow> s)"
proof -
  have nd: "status sale \<noteq> COMPLETED" using assms(2) by simp
  obtain fi fd where dd: "distributeDiscount sale = (fi, fd)"
    by (cases "distributeDiscount sale")
  obtain ps failure where sl: "stockLoop (products st) fi = (ps, failure)"
    by (cases "stockLoop (products st) fi")
  note cs = completeSale_cases [OF assms(1) nd dd, of cid cname now]
  have a: "map_option status (sales (fst (cancelSale st sid)) sid) = Some CANCELLED"
    and b: "products (fst (cancelSale st sid)) = products st"
    using assms by (simp_all add: cancelSale_def Let_def)
  have c: "failure = None \<Longrightarrow>
      map_option status (sales (fst (completeSale st sid cid cname now)) sid) = Some COMPLETED"
    using cs sl by simp
  have d: "failure \<noteq> None \<Longrightarrow> sales (fst (completeSale st sid cid cname now)) = sales st"
    using cs sl by auto
  have e: "map_option status (sales (fst (updateSale st sid saleData)) sid)
          = Some (case p_status saleData of None \<Rightarrow> CANCELLED | Some s \<Rightarrow> s)"
    using assms by (simp add: updateSale_def Let_def keep_def split: option.splits)
  from a b c d e dd sl show ?thesis by simp
qed

text \<open>The same Cancelled sale under each of the three services.\<close>

theorem cancelled_sale_transitions_witness:
  "map_option status (sales (fst (cancelSale (storeOf [lineA 2 10] CANCELLED 0) ''s1'')) ''s1'') = Some CANCELLED
   \<and> map_option status (sales (fst (completeSale (storeOf [lineA 2 10] CANCELLED 0) ''s1'' ''u2'' ''Caio'' ''t1'')) ''s1'') = Some COMPLETED
   \<and> map_option status (sales (fst (updateSale (storeOf [lineA 2 10] CANCELLED 0) ''s1'' (noFields\<lparr>p_status := Some PENDING\<rparr>))) ''s1'') = Some PENDING"
proof -
  let ?st = "storeOf [lineA 2 10] CANCELLED 0"
  have 1: "sales ?st ''s1'' = Some (saleOf [lineA 2 10] CANCELLED 0)"
    by (simp add: storeOf_def)
  have 2: "status (saleOf [lineA 2 10] CANCELLED 0) = CANCELLED"
    by (simp add: saleOf_def)
  have 3: "snd (stockLoop (products ?st) (fst (distributeDiscount (saleOf [lineA 2 10] CANCELLED 0)))) = None"
    by (simp add: scenario_defs distributeDiscount_def)
  from cancelled_sale_transitions [OF 1 2, of "''u2''" "''Caio''" "''t1''" "noFields\<lparr>p_status := Some PENDING\<rparr>"] 3
  show ?thesis by (simp add: noFields_def)
qed

section \<open>Money utilities: formatting and parsing\<close>

lemma isDigit_digitChar: "d < 10 \<Longrightarrow> isDigit (digitChar d)"
  by (simp add: isDigit_def digitChar_def)

lemma digitValue_digitChar: "d < 10 \<Longrightarrow> digitValue (digitChar d) = d"
  by (simp add: digitValue_def digitChar_def)

lemma not_isDigit_stop: "\<not> isDigit CHR ''.''" and not_isDigit_comma: "\<not> isDigit CHR '',''"
  and not_isDigit_minus: "\<not> isDigit CHR ''-''"
  by (simp_all add: isDigit_def)

lemma decimal_digits: "list_all isDigit (decimal n)"
proof (induction n rule: decimal.induct)
  case (1 n)
  show ?case
  proof (cases "n < 10")
    case True
    then show ?thesis by (subst decimal.simps) (simp add: isDigit_digitChar)
  next
    case False
    with 1 show ?thesis by (subst decimal.simps) (simp add: isDigit_digitChar)
  qed
qed

lemma digitsValue_snoc: "digitsValue (ds @ [c]) = digitsValue ds * 10 + digitValue c"
  by (simp add: digitsValue_def)

lemma digitsValue_decimal: "digitsValue (decimal n) = n"
proof (induction n rule: decimal.induct)
  case (1 n)
  show ?case
  proof (cases "n < 10")
    case True
    then show ?thesis
      by (subst decimal.simps) (simp add: digitsValue_def digitValue_digitChar)
  next
    case False
    with 1 have "digitsValue (decimal (n div 10)) = n div 10" by simp
    with False show ?thesis
      by (subst decimal.simps) (simp add: digitsValue_snoc digitValue_digitChar)
  qed
qed

lemma filter_groupThousands: "filter isDigit (groupThousands s) = filter isDigit s"
proof (induction s rule: groupThousands.induct)
  case (1 s)
  show ?case
  proof (cases "length s \<le> 3")
    case True
    then show ?thesis by (subst groupThousands.simps) simp
  next
    case False
    with 1 have "filter isDigit (groupThousands (take (length s - 3) s))
        = filter isDigit (take (length s - 3) s)" by simp
    with False have "filter isDigit (groupThousands s)
        = filter isDigit (take (length s - 3) s) @ filter isDigit (drop (length s - 3) s)"
      by (subst groupThousands.simps) (simp add: not_isDigit_stop)
    also have "\<dots> = filter isDigit (take (length s - 3) s @ drop (length s - 3) s)"
      by (simp only: filter_append)
    also have "\<dots> = filter isDigit s"
      by (simp only: append_take_drop_id)
    finally show ?thesis .
  qed
qed

text \<open>The digits of a formatted amount are those of its number of cents.\<close>

lemma digits_formatMoney:
  "filter isDigit (formatMoney x)
     = decimal (nat \<lfloor>\<bar>x\<bar> * 100 + 1 / 2\<rfloor> div 100)
       @ [digitChar (nat \<lfloor>\<bar>x\<bar> * 100 + 1 / 2\<rfloor> mod 100 div 10),
          digitChar (nat \<lfloor>\<bar>x\<bar> * 100 + 1 / 2\<rfloor> mod 10)]"
proof -
  define c where "c = nat \<lfloor>\<bar>x\<bar> * 100 + 1 / 2\<rfloor>"
  have "filter isDigit (decimal (c div 100)) = decimal (c div 100)"
    using decimal_digits [of "c div 100"] by (simp add: filter_id_conv list_all_iff)
  then show ?thesis
    unfolding formatMoney_def Let_def c_def [symmetric]
    by (simp add: filter_groupThousands not_isDigit_comma not_isDigit_minus isDigit_digitChar)
qed

lemma decimal_not_Nil: "decimal n \<noteq> []"
  by (subst decimal.simps) simp

lemma recompose_cents: "(n div 100 * 10 + n mod 100 div 10) * 10 + n mod 10 = (n::nat)"
proof -
  have "n mod 100 = 10 * (n div 10 mod 10) + n mod 10"
    using mod_mult2_eq [of n 10 10] by simp
  then have a: "n mod 100 div 10 = n div 10 mod 10" by simp
  have b: "n div 100 = n div 10 div 10"
    using div_mult2_eq [of n 10 10] by simp
  have "n div 100 * 10 + n mod 100 div 10 = n div 10" unfolding a b by simp
  then show ?thesis by simp
qed

lemma digitsValue_formatted:
  "digitsValue (decimal (n div 100) @ [digitChar (n mod 100 div 10), digitChar (n mod 10)]) = n"
proof -
  have "digitsValue ((decimal (n div 100) @ [digitChar (n mod 100 div 10)]) @ [digitChar (n mod 10)])
        = (n div 100 * 10 + n mod 100 div 10) * 10 + n mod 10"
    by (simp only: digitsValue_snoc digitsValue_decimal) (simp add: digitValue_digitChar)
  then show ?thesis by (simp only: recompose_cents append_assoc append_Cons append_Nil)
qed

text \<open>Parsing a formatted amount reads its number of cents, the amount rounded half
  away from zero, as a number and divides it by 100.\<close>

lemma parse_formatted_cents:
  "parseMoney (formatMoney x)
     = (case toNumber (nat \<lfloor>\<bar>x\<bar> * 100 + 1 / 2\<rfloor>) of
          Finite i \<Rightarrow> Finite (divD i 100)
        | Infinity \<Rightarrow> Infinity)"
proof -
  define c where "c = nat \<lfloor>\<bar>x\<bar> * 100 + 1 / 2\<rfloor>"
  have "decimal (c div 100) @ [digitChar (c mod 100 div 10), digitChar (c mod 10)] \<noteq> []"
    by simp
  then show ?thesis
    unfolding parseMoney_def parseInt_def Let_def digits_formatMoney c_def [symmetric]
    by (simp only: digitsValue_formatted if_False)
qed

lemma floor_numeral_div: "\<lfloor>(numeral a / numeral b :: rat)\<rfloor> = numeral a div numeral b"
  using floor_divide_of_int_eq [of "numeral a" "numeral b", where ?'a = rat] by simp

lemma toNumber_small: "n \<le> 2 ^ 53 \<Longrightarrow> toNumber n = Finite (of_nat n)"
proof -
  assume n: "n \<le> 2 ^ 53"
  have "(2::nat) ^ 53 < 2 ^ 1024 - 2 ^ 970" by simp
  with n have "\<not> 2 ^ 1024 - 2 ^ 970 \<le> n" by linarith
  with n show ?thesis by (simp only: toNumber_def if_False fl_of_nat_exact)
qed

text \<open>Up to \<open>2^53\<close> cents, the cents printed for the double of an amount give that
  double back: below \<open>2^46\<close> the double is less than half a cent away from the amount, and
  from there on the amounts that round to one double differ by less than its spacing.\<close>

lemma cents_roundtrip:
  fixes n :: nat
  assumes n: "n \<le> 2 ^ 53"
  defines "x \<equiv> fl (of_nat n / 100)"
  defines "c \<equiv> nat \<lfloor>x * 100 + 1 / 2\<rfloor>"
  shows "c \<le> 2 ^ 53 \<and> fl (of_nat c / 100) = x"
proof (cases "n = 0")
  case True
  then have "x = 0" by (simp add: x_def fl_zero)
  then have "c = 0" by (simp add: c_def)
  with \<open>x = 0\<close> show ?thesis by (simp add: fl_zero)
next
  case False
  define y :: rat where "y = of_nat n / 100"
  have ypos: "0 < y" using False by (simp add: y_def)
  have "(of_nat n :: rat) \<le> of_nat (2 ^ 53)" using n by (simp only: of_nat_le_iff)
  then have nle: "(of_nat n :: rat) \<le> 9007199254740992" by simp
  then have yle: "y \<le> 9007199254740992 / 100" by (simp add: y_def)
  have ny: "of_nat n = y * 100" by (simp add: y_def)
  define e where "e = expo y"
  define u :: rat where "u = 2 powi (e - 52)"
  define r where "r = roundEven (y / u)"
  have upos: "0 < u" by (simp add: u_def)
  from expo_bounds [OF ypos] have lo: "2 powi e \<le> y" and hi: "y < 2 powi (e + 1)"
    by (simp_all add: e_def)
  have x_eq: "x = of_int r * u"
    unfolding x_def r_def u_def y_def [symmetric] by (rule fl_pos_eq [OF lo hi])
  have err: "\<bar>of_int r - y / u\<bar> \<le> 1 / 2" unfolding r_def by (rule roundEven_error)
  have "x - y = (of_int r - y / u) * u" using upos by (simp add: x_eq field_simps)
  then have "\<bar>x - y\<bar> = \<bar>of_int r - y / u\<bar> * u" using upos by (simp add: abs_mult)
  also have "\<dots> \<le> (1 / 2) * u" using err upos by (intro mult_right_mono) simp_all
  finally have xy: "\<bar>x - y\<bar> \<le> u / 2" by simp
  have e47: "e < 47"
  proof (rule ccontr)
    assume "\<not> e < 47"
    then have "(2::rat) powi 47 \<le> 2 powi e" by (intro power_int_increasing) simp_all
    then have "(140737488355328::rat) \<le> 2 powi e" by simp
    with lo yle show False by linarith
  qed
  have xnn: "0 \<le> x" unfolding x_def by (rule fl_nonneg) simp
  show ?thesis
  proof (cases "e \<le> 45")
    case True
    then have "u \<le> 2 powi (- 7)" unfolding u_def by (intro power_int_increasing) simp_all
    then have "u \<le> 1 / 128" by (simp add: power_int_minus)
    with xy have "\<bar>x - y\<bar> \<le> 1 / 256" by linarith
    then have "x - y \<le> 1 / 256" "y - x \<le> 1 / 256" by linarith+
    moreover have "(of_int (int n) :: rat) = y * 100" using ny by simp
    ultimately have "of_int (int n) \<le> x * 100 + 1 / 2 \<and> x * 100 + 1 / 2 < of_int (int n) + 1"
      by linarith
    then have "\<lfloor>x * 100 + 1 / 2\<rfloor> = int n" by (intro floor_unique) simp_all
    then have "c = n" by (simp add: c_def)
    then show ?thesis using n by (simp add: x_def)
  next
    case False
    with e47 have e: "e = 46" by linarith
    have u: "u = 1 / 64" by (simp add: u_def e power_int_minus)
    have ylo: "70368744177664 \<le> y" using lo by (simp add: e)
    have yu: "y / u = y * 64" by (simp add: u)
    have rlo: "4503599627370496 \<le> r"
    proof -
      from err ylo have "(4503599627370496::rat) - 1 < of_int r" unfolding yu by linarith
      then have "(of_int (4503599627370496 - 1) :: rat) < of_int r" by simp
      then have "4503599627370496 - 1 < r" by (simp only: of_int_less_iff)
      then show ?thesis by simp
    qed
    have rhi: "r \<le> 5764607523034235"
    proof -
      from err yle have "(of_int r :: rat) < 5764607523034235 + 1" unfolding yu by linarith
      then have "(of_int r :: rat) < of_int (5764607523034235 + 1)" by simp
      then have "r < 5764607523034235 + 1" by (simp only: of_int_less_iff)
      then show ?thesis by simp
    qed
    have x64: "x = of_int r / 64" by (simp add: x_eq u)
    have xlo: "70368744177664 \<le> x" and xhi: "x \<le> 5764607523034235 / 64"
    proof -
      from rlo have "(of_int 4503599627370496 :: rat) \<le> of_int r" by (simp only: of_int_le_iff)
      then show "70368744177664 \<le> x" by (simp add: x64)
      from rhi have "(of_int r :: rat) \<le> of_int 5764607523034235" by (simp only: of_int_le_iff)
      then show "x \<le> 5764607523034235 / 64" by (simp add: x64)
    qed
    define t where "t = x * 100 + 1 / 2"
    define k where "k = \<lfloor>t\<rfloor>"
    have kt: "of_int k \<le> t" "t < of_int k + 1" unfolding k_def by linarith+
    have klo: "7036874417766400 \<le> k"
    proof -
      have "(of_int 7036874417766400 :: rat) \<le> t" using xlo by (simp add: t_def)
      then show ?thesis unfolding k_def by (simp only: le_floor_iff)
    qed
    have khi: "k \<le> 9007199254740992"
    proof -
      have "t < of_int 9007199254740992 + 1" using xhi by (simp add: t_def)
      then have "k < 9007199254740992 + 1" unfolding k_def by (simp only: floor_less_iff of_int_add of_int_1)
      then show ?thesis by simp
    qed
    have ck: "int c = k" using klo by (simp add: c_def k_def t_def)
    then have ck': "(of_nat c :: rat) = of_int k" by (metis of_int_of_nat_eq)
    define z :: rat where "z = of_nat c / 100"
    have zk: "z = of_int k / 100" by (simp add: z_def ck')
    have zx: "\<bar>z - x\<bar> \<le> 1 / 200" using kt unfolding zk t_def by linarith
    have klo': "(7036874417766400::rat) \<le> of_int k"
    proof -
      from klo have "(of_int 7036874417766400 :: rat) \<le> of_int k" by (simp only: of_int_le_iff)
      then show ?thesis by simp
    qed
    have khi': "of_int k \<le> (9007199254740992::rat)"
    proof -
      from khi have "(of_int k :: rat) \<le> of_int 9007199254740992" by (simp only: of_int_le_iff)
      then show ?thesis by simp
    qed
    have z1: "2 powi 46 \<le> z" using klo' by (simp add: zk)
    have z2: "z < 2 powi (46 + 1)" using khi' by (simp add: zk)
    have rz: "roundEven (z / 2 powi (46 - 52)) = r"
    proof (rule roundEven_near)
      have a: "z / 2 powi (46 - 52) - of_int r = (z - x) * 64" by (simp add: x64 power_int_minus)
      have "\<bar>(z - x) * 64\<bar> = \<bar>z - x\<bar> * 64" by (simp only: abs_mult abs_numeral)
      then have eq: "\<bar>z / 2 powi (46 - 52) - of_int r\<bar> = \<bar>z - x\<bar> * 64" by (simp only: a)
      have "\<bar>z - x\<bar> * 64 \<le> (1 / 200) * 64" using zx by (intro mult_right_mono) simp_all
      then have "\<bar>z - x\<bar> * 64 < 1 / 2" by simp
      then show "\<bar>z / 2 powi (46 - 52) - of_int r\<bar> < 1 / 2" by (simp only: eq)
    qed
    have "fl z = of_int r * 2 powi (46 - 52)" by (rule fl_eval [OF z1 z2 rz])
    then have "fl z = x" by (simp add: x64 power_int_minus)
    moreover have "c \<le> 2 ^ 53"
    proof -
      from ck khi have "int c \<le> 9007199254740992" by simp
      then show ?thesis by simp
    qed
    ultimately show ?thesis by (simp add: z_def)
  qed
qed

lemma fl_large_amount: "fl (9007199254740997 / 100) = 2882303761517119 / 32"
proof -
  have r: "roundEven ((9007199254740997 / 100) / 2 powi ((46) - 52)) = 5764607523034238"
    by (rule roundEven_near) simp_all
  have "fl (9007199254740997 / 100) = of_int 5764607523034238 * 2 powi ((46) - 52)"
    by (rule fl_eval [OF _ _ r]) simp_all
  then show ?thesis by simp
qed

lemma fl_large_cents: "fl 9007199254740997 = 9007199254740996"
proof -
  have r: "roundEven (9007199254740997 / 2 powi ((53) - 52)) = 4503599627370498"
    by (rule roundEven_tie_down) simp_all
  have "fl 9007199254740997 = of_int 4503599627370498 * 2 powi ((53) - 52)"
    by (rule fl_eval [OF _ _ r]) simp_all
  then show ?thesis by simp
qed

lemma fl_large_parsed: "fl (2251799813685249 / 25) = 5764607523034237 / 64"
proof -
  have r: "roundEven ((2251799813685249 / 25) / 2 powi ((46) - 52)) = 5764607523034237"
    by (rule roundEven_near) simp_all
  have "fl (2251799813685249 / 25) = of_int 5764607523034237 * 2 powi ((46) - 52)"
    by (rule fl_eval [OF _ _ r]) simp_all
  then show ?thesis by simp
qed

lemma fl_example_amount: "fl (30864 / 25) = 2714826150374277 / 2199023255552"
proof -
  have r: "roundEven ((30864 / 25) / 2 powi ((10) - 52)) = 5429652300748554"
    by (rule roundEven_near) simp_all
  have "fl (30864 / 25) = of_int 5429652300748554 * 2 powi ((10) - 52)"
    by (rule fl_eval [OF _ _ r]) simp_all
  then show ?thesis by simp
qed


text \<open>
  C10, refuted as it stands. The amount of 9007199254740997 cents, the double
  90071992547409.96875, is printed with the cents 9007199254740997; \<open>parseInt\<close>
  rounds that integer, which lies above \<open>2^53\<close>, to 9007199254740996, and the quotient
  by 100 is the double 90071992547409.953125, another amount.
\<close>

theorem parseMoney_formatMoney_beyond_2_53:
  "fl (9007199254740997 / 100) = 2882303761517119 / 32
   \<and> parseMoney (formatMoney (fl (9007199254740997 / 100))) = Finite (5764607523034237 / 64)
   \<and> parseMoney (formatMoney (fl (9007199254740997 / 100))) \<noteq> Finite (fl (9007199254740997 / 100))"
proof -
  have c: "nat \<lfloor>\<bar>2882303761517119 / 32 :: rat\<bar> * 100 + 1 / 2\<rfloor> = 9007199254740997"
    by (simp add: floor_numeral_div)
  have t: "toNumber 9007199254740997 = Finite 9007199254740996"
    using fl_large_cents by (simp add: toNumber_def)
  have "parseMoney (formatMoney (2882303761517119 / 32)) = Finite (5764607523034237 / 64)"
    unfolding parse_formatted_cents c t using fl_large_parsed by (simp add: divD_def)
  then show ?thesis by (simp add: fl_large_amount)
qed

text \<open>
  C10, amended. Let \<open>n\<close> be a number of cents up to \<open>2^53\<close> and \<open>x\<close> the amount
  \<open>n / 100\<close> as a double. Parsing the formatted \<open>x\<close> gives \<open>x\<close> back. For every
  string \<open>v\<close>, \<open>parseMoney v\<close> is not negative, and a string with no digit in it (any
  string with its digits taken out; the empty string is one) parses to 0.
\<close>

theorem parseMoney_formatMoney:
  "(n \<le> 2 ^ 53 \<longrightarrow>
      parseMoney (formatMoney (fl (of_nat n / 100))) = Finite (fl (of_nat n / 100)))
   \<and> nonNegative (parseMoney v)
   \<and> parseMoney (filter (\<lambda>c. \<not> isDigit c) v) = Finite 0"
proof (intro conjI impI)
  assume n: "n \<le> 2 ^ 53"
  define x where "x = fl (of_nat n / 100)"
  have xnn: "0 \<le> x" unfolding x_def by (rule fl_nonneg) simp
  define c where "c = nat \<lfloor>x * 100 + 1 / 2\<rfloor>"
  from cents_roundtrip [OF n] have c: "c \<le> 2 ^ 53" and rt: "fl (of_nat c / 100) = x"
    by (simp_all add: c_def x_def)
  have "parseMoney (formatMoney x) = Finite (divD (of_nat c) 100)"
    unfolding parse_formatted_cents using xnn toNumber_small [OF c]
    by (simp add: c_def abs_of_nonneg)
  then show "parseMoney (formatMoney (fl (of_nat n / 100))) = Finite (fl (of_nat n / 100))"
    by (simp add: divD_def rt x_def [symmetric])
next
  show "nonNegative (parseMoney v)"
    by (simp add: parseMoney_def parseInt_def toNumber_def nonNegative_def divD_def Let_def
        fl_nonneg)
next
  have "filter isDigit (filter (\<lambda>c. \<not> isDigit c) v) = []" by (induction v) simp_all
  then show "parseMoney (filter (\<lambda>c. \<not> isDigit c) v) = Finite 0"
    by (simp add: parseMoney_def parseInt_def toNumber_def digitsValue_def digitValue_def
        divD_def fl_zero Let_def)
qed

text \<open>1234.56 is printed as \<open>1.234,56\<close> and read back, and so is the amount of
  \<open>2^53\<close> cents; a string without digits reads as 0.\<close>

theorem parseMoney_formatMoney_witness:
  "parseMoney (formatMoney (fl (123456 / 100))) = Finite (fl (123456 / 100))
   \<and> parseMoney (formatMoney (fl (9007199254740992 / 100)))
       = Finite (fl (9007199254740992 / 100))
   \<and> parseMoney ''R$ --'' = Finite 0"
  using parseMoney_formatMoney [of 123456 "''R$ --''"]
    parseMoney_formatMoney [of 9007199254740992 "''R$ --''"]
  by (simp add: isDigit_def)

lemma decimal_small: "n < 10 \<Longrightarrow> decimal n = [digitChar n]"
  by (subst decimal.simps) simp

lemma decimal_large: "\<not> n < 10 \<Longrightarrow> decimal n = decimal (n div 10) @ [digitChar (n mod 10)]"
  by (subst decimal.simps) simp

lemma groupThousands_short: "length s \<le> 3 \<Longrightarrow> groupThousands s = s"
  by (subst groupThousands.simps) simp

lemma groupThousands_long:
  "\<not> length s \<le> 3 \<Longrightarrow>
   groupThousands s = groupThousands (take (length s - 3) s) @ ''.'' @ drop (length s - 3) s"
  by (subst groupThousands.simps) simp

lemma digitChar_numerals:
  "digitChar 0 = CHR ''0''" "digitChar 1 = CHR ''1''" "digitChar 2 = CHR ''2''"
  "digitChar 3 = CHR ''3''" "digitChar 4 = CHR ''4''" "digitChar 5 = CHR ''5''"
  "digitChar 6 = CHR ''6''" "digitChar 7 = CHR ''7''" "digitChar 8 = CHR ''8''"
  "digitChar 9 = CHR ''9''" "digitChar (Suc 0) = CHR ''1''"
  unfolding digitChar_def by code_simp+

text \<open>The double for 1234.56 and its formatted string; the parsed string.\<close>

lemma formatMoney_example:
  "fl (123456 / 100) = 2714826150374277 / 2199023255552"
  "formatMoney (fl (123456 / 100)) = ''1.234,56''"
  by (simp_all add: fl_example_amount formatMoney_def Let_def decimal_small decimal_large
      groupThousands_short groupThousands_long floor_numeral_div digitChar_numerals)

lemma formatMoney_example_sign: "formatMoney (- 12345 / 10) = ''-1.234,50''"
  by (simp add: formatMoney_def Let_def decimal_small decimal_large
      groupThousands_short groupThousands_long floor_numeral_div digitChar_numerals)

lemma parseMoney_example: "parseMoney ''1.234,56'' = Finite (fl (123456 / 100))"
  by (simp add: parseMoney_def parseInt_def toNumber_def digitsValue_def isDigit_def
      digitValue_def divD_def Let_def)

text \<open>The digits 9007199254740993 spell \<open>2^53 + 1\<close>, which \<open>parseInt\<close> reads as
  \<open>2^53\<close>: the amount parsed is the double 90071992547409.921875, which prints as
  90071992547409.92.\<close>

lemma fl_2_53_plus_1: "fl (9007199254740993) = 9007199254740992"
proof -
  have r: "roundEven ((9007199254740993) / 2 powi ((53) - 52)) = 4503599627370496"
    by (rule roundEven_tie_down) simp_all
  have "fl (9007199254740993) = of_int 4503599627370496 * 2 powi ((53) - 52)"
    by (rule fl_eval [OF _ _ r]) simp_all
  then show ?thesis by simp
qed

lemma fl_2_53_cents: "fl (2251799813685248 / 25) = 5764607523034235 / 64"
proof -
  have r: "roundEven ((2251799813685248 / 25) / 2 powi ((46) - 52)) = 5764607523034235"
    by (rule roundEven_near) simp_all
  have "fl (2251799813685248 / 25) = of_int 5764607523034235 * 2 powi ((46) - 52)"
    by (rule fl_eval [OF _ _ r]) simp_all
  then show ?thesis by simp
qed

lemma parseMoney_example_rounding:
  "parseMoney ''9007199254740993'' = Finite (5764607523034235 / 64)"
  by (simp add: parseMoney_def parseInt_def toNumber_def digitsValue_def isDigit_def
      digitValue_def divD_def Let_def fl_2_53_plus_1 fl_2_53_cents)

section \<open>Payment amounts\<close>









section \<open>Discount authorization\<close>















lemma fl_1_5: "fl (1 / 5) = 3602879701896397 / 18014398509481984"
proof -
  have r: "roundEven ((1 / 5) / 2 powi ((-3) - 52)) = 7205759403792794"
    by (rule roundEven_near) simp_all
  have "fl (1 / 5) = of_int 7205759403792794 * 2 powi ((-3) - 52)"
    by (rule fl_eval [OF _ _ r]) simp_all
  then show ?thesis by simp
qed








section \<open>Editing a cart item\<close>

text \<open>The literal \<open>0.94\<close>, the floor of the price 10.00 and the total of three units
  at that floor, as doubles.\<close>

lemma fl_94_100: "fl (47 / 50) = 2116691824864133 / 2251799813685248"
proof -
  have r: "roundEven ((47 / 50) / 2 powi ((-1) - 52)) = 8466767299456532"
    by (rule roundEven_near) simp_all
  have "fl (47 / 50) = of_int 8466767299456532 * 2 powi ((-1) - 52)"
    by (rule fl_eval [OF _ _ r]) simp_all
  then show ?thesis by simp
qed

lemma lit_0_94_value: "lit_0_94 = 2116691824864133 / 2251799813685248"
  unfolding lit_0_94_def using fl_94_100 by simp

lemma fl_floor_of_10: "fl (10583459124320665 / 1125899906842624) = 1322932390540083 / 140737488355328"
proof -
  have r: "roundEven ((10583459124320665 / 1125899906842624) / 2 powi ((3) - 52)) = 5291729562160332"
    by (rule roundEven_tie_down) simp_all
  have "fl (10583459124320665 / 1125899906842624) = of_int 5291729562160332 * 2 powi ((3) - 52)"
    by (rule fl_eval [OF _ _ r]) simp_all
  then show ?thesis by simp
qed

lemma fl_total_at_floor: "fl (3968797171620249 / 140737488355328) = 3968797171620249 / 140737488355328"
proof -
  have r: "roundEven ((3968797171620249 / 140737488355328) / 2 powi ((4) - 52)) = 7937594343240498"
    by (rule roundEven_near) simp_all
  have "fl (3968797171620249 / 140737488355328) = of_int 7937594343240498 * 2 powi ((4) - 52)"
    by (rule fl_eval [OF _ _ r]) simp_all
  then show ?thesis by simp
qed

text \<open>The floor never lies above the original price, and it is the exact 94% of the
  original price up to a relative \<open>2^-52\<close>.\<close>

lemma mulD_lit_le:
  assumes "0 \<le> x"
  shows "mulD x lit_0_94 \<le> x"
proof -
  define c :: rat where "c = 2116691824864133 / 2251799813685248"
  have c: "0 \<le> c" "c * (1 + 1 / 2 ^ 53) \<le> 1" by (simp_all add: c_def)
  have nn: "0 \<le> x * c" using assms c(1) by simp
  have "\<bar>fl (x * c) - x * c\<bar> \<le> \<bar>x * c\<bar> / 2 ^ 53" by (rule fl_error)
  then have "\<bar>fl (x * c) - x * c\<bar> \<le> (x * c) / 2 ^ 53" using nn by (simp only: abs_of_nonneg)
  then have "fl (x * c) \<le> x * c + (x * c) / 2 ^ 53" by linarith
  also have "\<dots> = x * (c * (1 + 1 / 2 ^ 53))" by (simp add: algebra_simps)
  also have "\<dots> \<le> x * 1" using c(2) assms by (rule mult_left_mono)
  finally show ?thesis by (simp add: mulD_def lit_0_94_value c_def)
qed

lemma mulD_lit_error:
  assumes "0 \<le> x"
  shows "\<bar>mulD x lit_0_94 - (94 / 100) * x\<bar> \<le> x / 2 ^ 52"
proof -
  define c :: rat where "c = 2116691824864133 / 2251799813685248"
  have c: "0 \<le> c" "c / 2 ^ 53 + \<bar>c - 94 / 100\<bar> \<le> 1 / 2 ^ 52" by (simp_all add: c_def)
  have nn: "0 \<le> x * c" using assms c(1) by simp
  have "\<bar>fl (x * c) - x * c\<bar> \<le> \<bar>x * c\<bar> / 2 ^ 53" by (rule fl_error)
  then have "\<bar>fl (x * c) - x * c\<bar> \<le> (x * c) / 2 ^ 53" using nn by (simp only: abs_of_nonneg)
  then have a: "\<bar>fl (x * c) - x * c\<bar> \<le> x * (c / 2 ^ 53)" by (simp only: times_divide_eq_right)
  have "x * c - (94 / 100) * x = x * (c - 94 / 100)" by (simp add: algebra_simps)
  then have "\<bar>x * c - (94 / 100) * x\<bar> = \<bar>x\<bar> * \<bar>c - 94 / 100\<bar>" by (simp only: abs_mult)
  then have b: "\<bar>x * c - (94 / 100) * x\<bar> = x * \<bar>c - 94 / 100\<bar>" using assms by (simp only: abs_of_nonneg)
  have "\<bar>fl (x * c) - (94 / 100) * x\<bar> \<le> \<bar>fl (x * c) - x * c\<bar> + \<bar>x * c - (94 / 100) * x\<bar>"
    by linarith
  also have "\<dots> \<le> x * (c / 2 ^ 53) + x * \<bar>c - 94 / 100\<bar>" using a b by linarith
  also have "\<dots> = x * (c / 2 ^ 53 + \<bar>c - 94 / 100\<bar>)" by (simp only: distrib_left)
  also have "\<dots> \<le> x * (1 / 2 ^ 52)" using c(2) assms by (rule mult_left_mono)
  finally show ?thesis by (simp add: mulD_def lit_0_94_value c_def)
qed

text \<open>
  C8, refuted as it stands. With the quantity field at 0 the edit is not made at all.
  Product A, original price 10.00, two units at 10.00: submitting the price 9.00, which
  is below the floor, with the quantity 0 leaves the item at the unit price 10.00 and the
  total 20.00, signals nothing and leaves the modal open. The price is neither clamped
  nor is the total the quantity times a final price.
\<close>

theorem saveEditItem_zero_quantity:
  "e_unitPrice (editItemData (editing (Some 9) 0)) = Some 9
   \<and> e_originalPrice (editItemData (editing (Some 9) 0)) = Some 10
   \<and> e_quantity (editItemData (editing (Some 9) 0)) = Some 0
   \<and> 9 < mulD 10 lit_0_94
   \<and> saveEditItem (editing (Some 9) 0) = Saved (editing (Some 9) 0) []
   \<and> unitPrice (cart (editing (Some 9) 0) ! 0) = 10
   \<and> total_item (cart (editing (Some 9) 0) ! 0) = 20
   \<and> editModalOpen (editing (Some 9) 0)"
  using fl_floor_of_10
  by (simp add: saveEditItem_def editing_def openEditModal_def toPartial_def truthy_def
      mulD_def lit_0_94_value scenario_defs)

text \<open>
  C8, amended. Let the item at index \<open>idx\<close> of the cart be saved from the edit modal
  with an original price \<open>orig \<ge> 0\<close> and a submitted unit price that is not negative.
  With a quantity that is missing or zero nothing is done: the state is unchanged and
  nothing is signalled. With a quantity \<open>q\<close> that is not zero the edit is made. If the
  submitted price is missing or zero, the unit price becomes \<open>orig\<close> and the only notice
  is the revert notice. If it is below the floor, the unit price becomes exactly the
  floor and the only notice is the adjustment notice. Otherwise the unit price is the
  submitted one and there is no notice. The floor is the double product of \<open>orig\<close> and
  the literal \<open>0.94\<close>; it is not above \<open>orig\<close> and differs from 94% of \<open>orig\<close> by at
  most \<open>orig / 2^52\<close>. In all three cases the item has quantity \<open>q\<close> and, as its total,
  the double product of quantity and unit price, the other items are unchanged and the
  modal is closed.
\<close>

theorem saveEditItem_price_floor:
  assumes "editItemIndex s = Some idx" and "idx < length (cart s)"
    and "e_originalPrice (editItemData s) = Some orig" and "0 \<le> orig"
    and "e_unitPrice (editItemData s) = submitted"
    and "\<forall>p. submitted = Some p \<longrightarrow> 0 \<le> p"
  defines "floorPrice \<equiv> mulD orig lit_0_94"
  shows "(\<not> truthy (e_quantity (editItemData s)) \<longrightarrow> saveEditItem s = Saved s [])
       \<and> (\<forall>q. e_quantity (editItemData s) = Some q \<and> q \<noteq> 0 \<longrightarrow>
            (\<exists>s' notices. saveEditItem s = Saved s' notices
               \<and> (\<not> truthy submitted \<longrightarrow>
                    unitPrice (cart s' ! idx) = orig \<and> notices = [RevertedToOriginal])
               \<and> (\<forall>p. submitted = Some p \<and> p \<noteq> 0 \<and> p < floorPrice \<longrightarrow>
                    unitPrice (cart s' ! idx) = floorPrice \<and> notices = [AdjustedToLimit])
               \<and> (\<forall>p. submitted = Some p \<and> p \<noteq> 0 \<and> floorPrice \<le> p \<longrightarrow>
                    unitPrice (cart s' ! idx) = p \<and> notices = [])
               \<and> quantity (cart s' ! idx) = q
               \<and> total_item (cart s' ! idx)
                   = mulD (quantity (cart s' ! idx)) (unitPrice (cart s' ! idx))
               \<and> length (cart s') = length (cart s)
               \<and> (\<forall>j. j < length (cart s) \<and> j \<noteq> idx \<longrightarrow> cart s' ! j = cart s ! j)
               \<and> editModalOpen s' = False))
       \<and> floorPrice \<le> orig
       \<and> \<bar>floorPrice - (94 / 100) * orig\<bar> \<le> orig / 2 ^ 52"
proof (intro conjI allI impI)
  assume "\<not> truthy (e_quantity (editItemData s))"
  with assms(1) show "saveEditItem s = Saved s []"
    by (simp add: saveEditItem_def Let_def)
next
  show "floorPrice \<le> orig" unfolding floorPrice_def by (rule mulD_lit_le [OF assms(4)])
next
  show "\<bar>floorPrice - (94 / 100) * orig\<bar> \<le> orig / 2 ^ 52"
    unfolding floorPrice_def by (rule mulD_lit_error [OF assms(4)])
next
  fix q
  assume q: "e_quantity (editItemData s) = Some q \<and> q \<noteq> 0"
  have fo: "\<not> orig < mulD orig lit_0_94" using mulD_lit_le [OF assms(4)] by simp
  have zero: "mulD 0 lit_0_94 = 0" by (simp add: mulD_def fl_zero)
  show "\<exists>s' notices. saveEditItem s = Saved s' notices
               \<and> (\<not> truthy submitted \<longrightarrow>
                    unitPrice (cart s' ! idx) = orig \<and> notices = [RevertedToOriginal])
               \<and> (\<forall>p. submitted = Some p \<and> p \<noteq> 0 \<and> p < floorPrice \<longrightarrow>
                    unitPrice (cart s' ! idx) = floorPrice \<and> notices = [AdjustedToLimit])
               \<and> (\<forall>p. submitted = Some p \<and> p \<noteq> 0 \<and> floorPrice \<le> p \<longrightarrow>
                    unitPrice (cart s' ! idx) = p \<and> notices = [])
               \<and> quantity (cart s' ! idx) = q
               \<and> total_item (cart s' ! idx)
                   = mulD (quantity (cart s' ! idx)) (unitPrice (cart s' ! idx))
               \<and> length (cart s') = length (cart s)
               \<and> (\<forall>j. j < length (cart s) \<and> j \<noteq> idx \<longrightarrow> cart s' ! j = cart s ! j)
               \<and> editModalOpen s' = False"
  proof (cases submitted)
    case None
    with q fo zero assms(1-4) assms(5) [symmetric] show ?thesis
      unfolding floorPrice_def
      by (simp add: saveEditItem_def Let_def truthy_def orElse_def mergeItem_def keep_def)
  next
    case (Some p)
    with assms(6) have p0: "0 \<le> p" by simp
    show ?thesis
    proof (cases "p = 0")
      case True
      with Some q fo zero assms(1-4) assms(5) [symmetric] show ?thesis
        unfolding floorPrice_def
        by (simp add: saveEditItem_def Let_def truthy_def orElse_def mergeItem_def keep_def)
    next
      case False
      show ?thesis
      proof (cases "orig = 0")
        case True
        have "\<not> p < mulD p lit_0_94" using mulD_lit_le [OF p0] by simp
        with True False Some p0 q zero assms(1-4) assms(5) [symmetric] show ?thesis
          unfolding floorPrice_def
          by (simp add: saveEditItem_def Let_def truthy_def orElse_def mergeItem_def keep_def)
      next
        case orig_nz: False
        with False Some q assms(1-4) assms(5) [symmetric] show ?thesis
          unfolding floorPrice_def
          by (auto simp add: saveEditItem_def Let_def truthy_def orElse_def mergeItem_def keep_def)
      qed
    qed
  qed
qed

text \<open>Product A, original price 10.00, three units: a price of 9.00 is raised to
  the floor 9.399999999999999 (total 28.199999999999996); a price of 0 reverts to 10.00
  (total 30.00); with the quantity 0 nothing is done.\<close>

theorem saveEditItem_price_floor_witness:
  "(\<exists>s'. saveEditItem (editing (Some 9) 3) = Saved s' [AdjustedToLimit]
      \<and> unitPrice (cart s' ! 0) = 1322932390540083 / 140737488355328
      \<and> total_item (cart s' ! 0) = 3968797171620249 / 140737488355328)
   \<and> (\<exists>s'. saveEditItem (editing (Some 0) 3) = Saved s' [RevertedToOriginal]
      \<and> unitPrice (cart s' ! 0) = 10 \<and> total_item (cart s' ! 0) = 30)
   \<and> saveEditItem (editing (Some 9) 0) = Saved (editing (Some 9) 0) []"
proof -
  have h1: "editItemIndex (editing p q) = Some 0"
    and h2: "0 < length (cart (editing p q))"
    and h3: "e_quantity (editItemData (editing p q)) = Some q"
    and h5: "e_originalPrice (editItemData (editing p q)) = Some 10"
    and h7: "e_unitPrice (editItemData (editing p q)) = p" for p q
    by (simp_all add: editing_def openEditModal_def toPartial_def scenario_defs)
  have h6: "(0::rat) \<le> 10"
    by simp
  have nine: "\<forall>p. Some (9::rat) = Some p \<longrightarrow> 0 \<le> p"
    and zero: "\<forall>p. Some (0::rat) = Some p \<longrightarrow> 0 \<le> p"
    by simp_all
  have fl10: "mulD 10 lit_0_94 = 1322932390540083 / 140737488355328"
    using fl_floor_of_10 by (simp add: mulD_def lit_0_94_value)
  have tot: "mulD 3 (1322932390540083 / 140737488355328) = 3968797171620249 / 140737488355328"
    using fl_total_at_floor by (simp add: mulD_def)
  have t30: "mulD 3 10 = 30" by (simp add: mulD_def)
  have a: "\<exists>s'. saveEditItem (editing (Some 9) 3) = Saved s' [AdjustedToLimit]
      \<and> unitPrice (cart s' ! 0) = 1322932390540083 / 140737488355328
      \<and> total_item (cart s' ! 0) = 3968797171620249 / 140737488355328"
  proof -
    have q: "e_quantity (editItemData (editing (Some 9) 3)) = Some 3 \<and> (3::rat) \<noteq> 0"
      by (simp add: h3)
    from saveEditItem_price_floor [OF h1 h2 h5 h6 h7 nine, THEN conjunct2, THEN conjunct1,
        THEN spec, THEN mp, OF q]
    obtain s' ns where sv: "saveEditItem (editing (Some 9) 3) = Saved s' ns"
      and adj: "\<forall>p. Some 9 = Some p \<and> p \<noteq> 0 \<and> p < mulD 10 lit_0_94 \<longrightarrow>
                  unitPrice (cart s' ! 0) = mulD 10 lit_0_94 \<and> ns = [AdjustedToLimit]"
      and qty: "quantity (cart s' ! 0) = 3"
      and tot': "total_item (cart s' ! 0) = mulD (quantity (cart s' ! 0)) (unitPrice (cart s' ! 0))"
      by blast
    have "Some 9 = Some 9 \<and> (9::rat) \<noteq> 0 \<and> 9 < mulD 10 lit_0_94"
      unfolding fl10 by simp
    with adj have up: "unitPrice (cart s' ! 0) = mulD 10 lit_0_94" and ns: "ns = [AdjustedToLimit]"
      by blast+
    from tot' have "total_item (cart s' ! 0) = 3968797171620249 / 140737488355328"
      unfolding qty up fl10 tot .
    with sv up ns show ?thesis unfolding fl10 by blast
  qed
  have b: "\<exists>s'. saveEditItem (editing (Some 0) 3) = Saved s' [RevertedToOriginal]
      \<and> unitPrice (cart s' ! 0) = 10 \<and> total_item (cart s' ! 0) = 30"
  proof -
    have q: "e_quantity (editItemData (editing (Some 0) 3)) = Some 3 \<and> (3::rat) \<noteq> 0"
      by (simp add: h3)
    from saveEditItem_price_floor [OF h1 h2 h5 h6 h7 zero, THEN conjunct2, THEN conjunct1,
        THEN spec, THEN mp, OF q]
    obtain s' ns where sv: "saveEditItem (editing (Some 0) 3) = Saved s' ns"
      and rev: "\<not> truthy (Some 0) \<longrightarrow> unitPrice (cart s' ! 0) = 10 \<and> ns = [RevertedToOriginal]"
      and qty: "quantity (cart s' ! 0) = 3"
      and tot': "total_item (cart s' ! 0) = mulD (quantity (cart s' ! 0)) (unitPrice (cart s' ! 0))"
      by blast
    have "\<not> truthy (Some 0)" by (simp add: truthy_def)
    with rev have up: "unitPrice (cart s' ! 0) = 10" and ns: "ns = [RevertedToOriginal]"
      by blast+
    from tot' have "total_item (cart s' ! 0) = 30" unfolding qty up t30 .
    with sv up ns show ?thesis by blast
  qed
  have "\<not> truthy (e_quantity (editItemData (editing (Some 9) 0)))"
    by (simp add: h3 truthy_def)
  with saveEditItem_price_floor [OF h1 h2 h5 h6 h7 nine, THEN conjunct1]
  have c: "saveEditItem (editing (Some 9) 0) = Saved (editing (Some 9) 0) []"
    by blast
  from a b c show ?thesis by blast
qed

section \<open>The payment check before completion\<close>

lemma totalGeneral_nonneg: "0 \<le> totalGeneral s"
  by (simp add: totalGeneral_def)

text \<open>The payment check of the two confirmations. A submit that is not a budget is
  refused, before anything is written, unless the total is 0 or something is paid and
  the paid amount is within 0.05 of the total. The cashier's finalize is refused, before
  anything is written, when the paid amount is more than 0.05 away from the total.\<close>

lemma handleSubmitSale_payment_gate:
  assumes "\<not> asBudget"
    and "\<not> (totalGeneral s = 0 \<or> (totalPaid s \<noteq> 0 \<and> \<bar>totalPaid s - totalGeneral s\<bar> \<le> 5 / 100))"
  shows "\<exists>e. handleSubmitSale u sellers newId now s st asBudget = (s, st, Rejected e)
           \<and> e \<in> {ValidationError, NoPaymentSelected, PaymentMismatch (totalGeneral s - totalPaid s)}"
proof -
  from assms(2) totalGeneral_nonneg [of s] have pos: "totalGeneral s > 0" by simp
  from assms(2) have "totalPaid s = 0 \<or> \<bar>totalPaid s - totalGeneral s\<bar> > 5 / 100" by auto
  with assms(1) pos show ?thesis
    by (auto simp add: handleSubmitSale_def)
qed

lemma handleCashierFinalize_payment_gate:
  assumes "editingSaleId s = Some sid" and "\<not> noSession u"
    and "\<bar>totalPaid s - totalGeneral s\<bar> > 5 / 100"
  shows "handleCashierFinalize u now s st
           = (s, st, Rejected (PaymentMismatch (totalGeneral s - totalPaid s)))"
  using assms by (simp add: handleCashierFinalize_def Let_def)

text \<open>
  C5. The cashier's finalize has no check that something is paid, which the submit
  has. On a sale of one item of 0.03 with no payment at all the total is 0.03 and the
  paid amount 0: the finalize accepts, and the sale is stored as Completed; the submit
  refuses the same state, asking for a payment method.
\<close>

theorem handleCashierFinalize_accepts_unpaid:
  "totalGeneral tinySale = 3 / 100 \<and> totalPaid tinySale = 0
   \<and> snd (snd (handleCashierFinalize (Some cashierUser) ''t1'' tinySale
                  (storeOf [lineA 1 (3 / 100)] PENDING 0))) = Accepted
   \<and> map_option status
        (sales (fst (snd (handleCashierFinalize (Some cashierUser) ''t1'' tinySale
                            (storeOf [lineA 1 (3 / 100)] PENDING 0)))) ''s1'') = Some COMPLETED
   \<and> snd (snd (handleSubmitSale (Some cashierUser) [] ''s2'' ''t1'' tinySale
                  (storeOf [lineA 1 (3 / 100)] PENDING 0) False)) = Rejected NoPaymentSelected"
proof -
  have tg: "totalGeneral tinySale = 3 / 100" and tp: "totalPaid tinySale = 0"
    by (simp_all add: tinySale_def totalGeneral_def subTotal_def totalPaid_def paymentValues_def
        scenario_defs)
  have us: "updateSale (storeOf [lineA 1 (3 / 100)] PENDING 0) ''s1''
              (noFields\<lparr> p_payments := Some (payments_st tinySale),
                 p_installments := Some (creditInstallments tinySale),
                 p_cashierIdent := Some (cashierIdent_st tinySale) \<rparr>)
            = (\<lparr> products = [''A'' \<mapsto> productA, ''B'' \<mapsto> productB],
                 sales = [''s1'' \<mapsto> (saleOf [lineA 1 (3 / 100)] PENDING 0)
                    \<lparr>payments := Some noPayments, cashierIdent := Some []\<rparr>] \<rparr>,
               Inr ((saleOf [lineA 1 (3 / 100)] PENDING 0)
                    \<lparr>payments := Some noPayments, cashierIdent := Some []\<rparr>))"
    by (simp add: updateSale_def noFields_def tinySale_def keep_def keepOpt_def Let_def
        storeOf_def saleOf_def posOf_def)
  have ed: "editingSaleId tinySale = Some ''s1''"
    by (simp add: tinySale_def)
  have "\<exists>st2 row. completeSale \<lparr> products = [''A'' \<mapsto> productA, ''B'' \<mapsto> productB],
                 sales = [''s1'' \<mapsto> (saleOf [lineA 1 (3 / 100)] PENDING 0)
                    \<lparr>payments := Some noPayments, cashierIdent := Some []\<rparr>] \<rparr>
               ''s1'' ''u2'' ''Caio'' ''t1'' = (st2, Inr row)
           \<and> map_option status (sales st2 ''s1'') = Some COMPLETED"
    by (simp add: completeSale_def distributeDiscount_def Let_def saleOf_def lineA_def productA_def)
  then obtain st2 row where cs: "completeSale \<lparr> products = [''A'' \<mapsto> productA, ''B'' \<mapsto> productB],
                 sales = [''s1'' \<mapsto> (saleOf [lineA 1 (3 / 100)] PENDING 0)
                    \<lparr>payments := Some noPayments, cashierIdent := Some []\<rparr>] \<rparr>
               ''s1'' ''u2'' ''Caio'' ''t1'' = (st2, Inr row)"
      and st: "map_option status (sales st2 ''s1'') = Some COMPLETED"
    by blast
  have fin: "handleCashierFinalize (Some cashierUser) ''t1'' tinySale
                  (storeOf [lineA 1 (3 / 100)] PENDING 0)
      = ((resetSalesState tinySale)\<lparr>activeTab := TabPending\<rparr>, st2, Accepted)"
    by (simp add: handleCashierFinalize_def Let_def tg tp ed us cs noSession_def cashierUser_def)
  have sub: "snd (snd (handleSubmitSale (Some cashierUser) [] ''s2'' ''t1'' tinySale
                  (storeOf [lineA 1 (3 / 100)] PENDING 0) False)) = Rejected NoPaymentSelected"
    unfolding handleSubmitSale_def tg tp
    by (simp add: tinySale_def posOf_def)
  from tg tp fin st sub show ?thesis by simp
qed

section \<open>The three views of the discount\<close>

lemma fl_0_5: "fl (1 / 2) = 1 / 2"
proof -
  have r: "roundEven ((1 / 2) / 2 powi ((-1) - 52)) = 4503599627370496"
    by (rule roundEven_near) simp_all
  have "fl (1 / 2) = of_int 4503599627370496 * 2 powi ((-1) - 52)"
    by (rule fl_eval [OF _ _ r]) simp_all
  then show ?thesis by simp
qed

lemma fl_0_5_by_10: "fl (1 / 20) = 3602879701896397 / 72057594037927936"
proof -
  have r: "roundEven ((1 / 20) / 2 powi ((-5) - 52)) = 7205759403792794"
    by (rule roundEven_near) simp_all
  have "fl (1 / 20) = of_int 7205759403792794 * 2 powi ((-5) - 52)"
    by (rule fl_eval [OF _ _ r]) simp_all
  then show ?thesis by simp
qed

lemma fl_pct_0_5_on_10: "fl (90071992547409925 / 18014398509481984) = 5"
proof -
  have r: "roundEven ((90071992547409925 / 18014398509481984) / 2 powi ((2) - 52)) = 5629499534213120"
    by (rule roundEven_near) simp_all
  have "fl (90071992547409925 / 18014398509481984) = of_int 5629499534213120 * 2 powi ((2) - 52)"
    by (rule fl_eval [OF _ _ r]) simp_all
  then show ?thesis by simp
qed

text \<open>Typing the discount amount or the desired total stores, next to the amount, the
  percentage that the handlers compute for that amount.\<close>

lemma handleDiscountValueChange_consistent:
  "tempDiscountValue (handleDiscountValueChange s val) = val \<and>
   tempDiscountPercent (handleDiscountValueChange s val)
     = effectivePercent s (tempDiscountValue (handleDiscountValueChange s val))"
  by (simp add: handleDiscountValueChange_def)

lemma handleDiscountTotalChange_consistent:
  "tempDiscountValue (handleDiscountTotalChange s t) = max 0 (subD (subTotal s) t) \<and>
   tempDiscountPercent (handleDiscountTotalChange s t)
     = effectivePercent s (tempDiscountValue (handleDiscountTotalChange s t))"
  by (simp add: handleDiscountTotalChange_def Let_def)

text \<open>
  C9. Typing the percentage stores the typed percentage next to the amount cut off at
  0. One unit of A marked down from 10.00 to 9.50 carries 5% of item discount; typing
  2% stores the amount 0 with the percentage 2, while the formula gives 5 for that
  amount. Typing a total of 20.00 also stores the amount 0, with the percentage 5.
\<close>

theorem handleDiscountPercentChange_stale_percent:
  "tempDiscountValue (handleDiscountPercentChange (posOf [lineA 1 (95 / 10)]) 2) = 0
   \<and> tempDiscountPercent (handleDiscountPercentChange (posOf [lineA 1 (95 / 10)]) 2) = 2
   \<and> 100 * (discountFromItems (handleDiscountPercentChange (posOf [lineA 1 (95 / 10)]) 2)
            + tempDiscountValue (handleDiscountPercentChange (posOf [lineA 1 (95 / 10)]) 2))
         / totalOriginalValue (handleDiscountPercentChange (posOf [lineA 1 (95 / 10)]) 2) = 5
   \<and> tempDiscountPercent (handleDiscountTotalChange (posOf [lineA 1 (95 / 10)]) 20) = 5"
proof -
  have v: "totalOriginalValue (posOf [lineA 1 (95 / 10)]) = 10"
    and st: "subTotal (posOf [lineA 1 (95 / 10)]) = 19 / 2"
    by (simp_all add: totalOriginalValue_def subTotal_def baselinePrice_def addD_def mulD_def
        lineA_def posOf_def)
  have d: "discountFromItems (posOf [lineA 1 (95 / 10)]) = 1 / 2"
    unfolding discountFromItems_def v st subD_def by (simp add: fl_0_5)
  have "subD (divD (mulD 10 2) 100) (1 / 2) \<le> 0"
    unfolding subD_def by (rule fl_nonpos) (simp add: divD_def mulD_def fl_1_5)
  then have cut: "max 0 (subD (divD (mulD 10 2) 100) (1 / 2)) = 0" by simp
  have "subD (19 / 2) 20 \<le> 0"
    unfolding subD_def by (rule fl_nonpos) simp
  then have cut': "max 0 (subD (19 / 2) 20) = 0" by simp
  have pc: "handleDiscountPercentChange (posOf [lineA 1 (95 / 10)]) 2
      = (posOf [lineA 1 (95 / 10)])\<lparr>tempDiscountPercent := 2, tempDiscountValue := 0\<rparr>"
    unfolding handleDiscountPercentChange_def Let_def v d cut ..
  have v': "totalOriginalValue (s\<lparr>tempDiscountPercent := a, tempDiscountValue := b\<rparr>)
              = totalOriginalValue s"
    and d': "discountFromItems (s\<lparr>tempDiscountPercent := a, tempDiscountValue := b\<rparr>)
              = discountFromItems s" for s a b
    by (simp_all add: discountFromItems_def totalOriginalValue_def subTotal_def)
  have tc: "tempDiscountPercent (handleDiscountTotalChange (posOf [lineA 1 (95 / 10)]) 20) = 5"
    unfolding handleDiscountTotalChange_def Let_def st cut' effectivePercent_def v d
    by (simp add: addD_def divD_def mulD_def fl_0_5 fl_0_5_by_10 fl_pct_0_5_on_10)
  show ?thesis unfolding pc v' d' v d using tc by simp
qed

end
